theory Spec2Isabelle
  imports Main "HOL-Library.Word"
begin

unbundle bit_operations_syntax

section \<open>Machine types\<close>

text \<open>
  Arduino's \<open>byte\<close> is an unsigned 8-bit value and \<open>unsigned long\<close> an unsigned 32-bit
  value; both wrap around. The code is written for the AVR boards, where \<open>int\<close> has 16
  bits: a value of type \<open>int\<close> (the result of \<open>SdFile::read\<close>, a loop counter, a sum or
  product of bytes before it is stored) is an integer from \<open>-32768\<close> to \<open>32767\<close>, and
  each addition and multiplication in \<open>int\<close> is reduced to that range (\<open>cint\<close>), which
  is the two's-complement result that the 16-bit arithmetic of the target gives. The
  conversion of an \<open>int\<close> to a \<open>byte\<close>, a 16-bit field or an \<open>unsigned long\<close> is a
  \<open>word_of_int\<close>, which reduces modulo the width and so extends the sign of a negative
  value.
\<close>

type_synonym byte = "8 word"
type_synonym uint16 = "16 word"
type_synonym ulong = "32 word"

definition cint :: "int \<Rightarrow> int" where
  "cint x = (x + 32768) mod 65536 - 32768"

definition add_int :: "int \<Rightarrow> int \<Rightarrow> int" where
  "add_int a b = cint (a + b)"

definition mul_int :: "int \<Rightarrow> int \<Rightarrow> int" where
  "mul_int a b = cint (a * b)"

section \<open>The backing file (SdFile)\<close>

text \<open>
  The file handle is supplied by the SD card library, outside the repository. The model
  keeps what \<open>disk_image.cpp\<close> uses of it: the bytes of the file, the current position
  and the short file name. \<open>read\<close> returns the byte at the position and advances, or
  \<open>-1\<close> at the end of the file; \<open>seekSet\<close> refuses a position beyond the end of the
  file and then leaves the position where it was; \<open>write\<close> overwrites from the position
  on, extending the file where it runs past the end, and returns the number of bytes
  written.
\<close>

record SdFile =
  contents :: "byte list"
  curPosition :: nat
  filename :: string

definition fileSize :: "SdFile \<Rightarrow> ulong" where
  "fileSize f = of_nat (length (contents f))"

definition seekSet :: "ulong \<Rightarrow> SdFile \<Rightarrow> SdFile" where
  "seekSet pos f = (if unat pos \<le> length (contents f) then f\<lparr>curPosition := unat pos\<rparr> else f)"

definition read :: "SdFile \<Rightarrow> int \<times> SdFile" where
  "read f =
     (if curPosition f < length (contents f)
      then (uint (contents f ! curPosition f), f\<lparr>curPosition := Suc (curPosition f)\<rparr>)
      else (- 1, f))"

definition write_file :: "byte list \<Rightarrow> SdFile \<Rightarrow> nat \<times> SdFile" where
  "write_file bs f =
     (let p = curPosition f
      in (length bs,
          f\<lparr>contents := take p (contents f) @ bs @ drop (p + length bs) (contents f),
            curPosition := p + length bs\<rparr>))"

definition getFilename :: "SdFile \<Rightarrow> string" where
  "getFilename f = filename f"

text \<open>\<open>reads n\<close> is \<open>n\<close> successive calls of \<open>read\<close>, in order.\<close>

fun reads :: "nat \<Rightarrow> SdFile \<Rightarrow> int list \<times> SdFile" where
  "reads 0 f = ([], f)"
| "reads (Suc n) f =
     (let (b, f1) = read f; (bs, f2) = reads n f1 in (b # bs, f2))"

text \<open>The cast \<open>(byte)file->read()\<close>, applied to each of \<open>n\<close> reads.\<close>

definition read_bytes :: "nat \<Rightarrow> SdFile \<Rightarrow> byte list \<times> SdFile" where
  "read_bytes n f = (let (bs, f1) = reads n f in (map word_of_int bs, f1))"

text \<open>
  Files are passed as \<open>SdFile*\<close>, and the image keeps the pointer: the store maps
  addresses to file objects.
\<close>

type_synonym heap = "nat \<Rightarrow> SdFile option"

section \<open>Declarations of disk_image.h, atari.h and config.h\<close>

text \<open>
  Modelled from the spec: the headers that declare the constants and structures used by
  \<open>disk_image.cpp\<close> are not among the sources. The four image kinds are distinct codes.
  The ATR signature is the 16-bit value whose bytes in the file are \<open>0x96 0x02\<close>; a
  single-density sector has 128 bytes; the reference image sizes are tracks times
  sectors per track times sector size, for 35 or 40 tracks of 18 sectors of 128 bytes
  (single density), 26 sectors of 128 bytes (enhanced density) and 18 sectors of 256
  bytes (double density). \<open>ATX_IMAGES\<close> is defined, since the spec describes ATX support.
\<close>

datatype image_type = TYPE_ATR | TYPE_XFD | TYPE_PRO | TYPE_ATX

definition ATR_SIGNATURE :: uint16 where "ATR_SIGNATURE = 0x0296"
definition SECTOR_SIZE_SD :: ulong where "SECTOR_SIZE_SD = 128"
definition FORMAT_SS_SD_40 :: ulong where "FORMAT_SS_SD_40 = 92160"
definition FORMAT_SS_ED_35 :: ulong where "FORMAT_SS_ED_35 = 116480"
definition FORMAT_SS_ED_40 :: ulong where "FORMAT_SS_ED_40 = 133120"
definition FORMAT_SS_DD_35 :: ulong where "FORMAT_SS_DD_35 = 161280"
definition FORMAT_SS_DD_40 :: ulong where "FORMAT_SS_DD_40 = 184320"


text \<open>
  Modelled from the spec: the phantom sector modes of the PRO file header, five without
  phantom emulation and two global alternating ones among them, numbered as the PRO
  container numbers them.
\<close>

definition PSM_SIMPLE :: byte where "PSM_SIMPLE = 0"
definition PSM_MINDSCAPE_SPECIAL :: byte where "PSM_MINDSCAPE_SPECIAL = 1"
definition PSM_GLOBAL_FLIP_FLOP :: byte where "PSM_GLOBAL_FLIP_FLOP = 2"
definition PSM_GLOBAL_FLOP_FLIP :: byte where "PSM_GLOBAL_FLOP_FLIP = 3"
definition PSM_STICKY :: byte where "PSM_STICKY = 5"
definition PSM_SHIMMERING :: byte where "PSM_SHIMMERING = 7"
definition PSM_REVERSE_SHIMMER :: byte where "PSM_REVERSE_SHIMMER = 8"

text \<open>
  Modelled from the spec: the header structures are overlaid on the raw bytes read from
  the file. \<open>ATRHeader\<close> starts with three little-endian 16-bit fields (signature, size
  in 16-byte units, sector size). \<open>PROFileHeader\<close> starts with the sector count (high
  byte, low byte), the magic byte, the image type, the phantom sector mode and the
  sector read delay. \<open>PROSectorHeader\<close> has 12 bytes: the four bytes of the status frame
  (command status, hardware status, two timeout bytes), a reserved byte, the number of
  phantoms and the phantom links. The bits of the hardware status are those of the
  floppy controller's status register.
\<close>

definition le16 :: "byte \<Rightarrow> byte \<Rightarrow> uint16" where
  "le16 lo hi = ucast lo + 256 * ucast hi"

definition ATRHeader_signature :: "byte list \<Rightarrow> uint16" where
  "ATRHeader_signature h = le16 (h ! 0) (h ! 1)"

definition ATRHeader_secSize :: "byte list \<Rightarrow> uint16" where
  "ATRHeader_secSize h = le16 (h ! 4) (h ! 5)"

definition sectorCountHi :: "byte list \<Rightarrow> byte" where "sectorCountHi h = h ! 0"
definition sectorCountLo :: "byte list \<Rightarrow> byte" where "sectorCountLo h = h ! 1"
definition magic :: "byte list \<Rightarrow> byte" where "magic h = h ! 2"
definition phantomSectorMode :: "byte list \<Rightarrow> byte" where "phantomSectorMode h = h ! 4"
definition sectorReadDelay :: "byte list \<Rightarrow> byte" where "sectorReadDelay h = h ! 5"

definition sizeof_PROSectorHeader :: nat where "sizeof_PROSectorHeader = 12"
definition sizeof_StatusFrame :: nat where "sizeof_StatusFrame = 4"

record StatusFrame =
  commandStatus :: byte
  hardwareStatus :: byte
  timeout_lsb :: byte
  timeout_msb :: byte

definition StatusFrame_of :: "byte list \<Rightarrow> StatusFrame" where
  "StatusFrame_of bs =
     \<lparr>commandStatus = bs ! 0, hardwareStatus = bs ! 1, timeout_lsb = bs ! 2, timeout_msb = bs ! 3\<rparr>"

definition dataLostOrTrack0 :: "byte \<Rightarrow> bool" where "dataLostOrTrack0 hw = bit hw 2"
definition crcError :: "byte \<Rightarrow> bool" where "crcError hw = bit hw 3"
definition recordNotFound :: "byte \<Rightarrow> bool" where "recordNotFound hw = bit hw 4"

definition totalPhantoms :: "byte list \<Rightarrow> byte" where "totalPhantoms h = h ! 5"
definition phantom1 :: "byte list \<Rightarrow> byte" where "phantom1 h = h ! 7"

text \<open>
  Modelled from the spec: the slot of the ATX index and the packet returned by a read
  are declared outside the sources; their members are those that \<open>disk_image.cpp\<close>
  names. A slot holds the logical sector number (an unsigned 16-bit field, wide enough
  for the value 60000 that marks an unfilled slot), the file offset and the status
  byte. The packet holds its length, the error flag, the status frame with its validity
  flag, and the data, an array whose capacity is declared outside the sources: the list
  \<open>data\<close> has one element for each byte of the array.
\<close>

record ATXSectorHeader =
  sectorNumber :: uint16
  fileIndex :: ulong
  sstatus :: byte

record SectorPacket =
  length_pkt :: ulong
  error :: bool
  validStatusFrame :: bool
  statusFrame :: StatusFrame
  data :: "byte list"

section \<open>The disk image\<close>

text \<open>
  Modelled from the spec: the class is declared in \<open>disk_image.h\<close>, outside the
  sources; its members are those that \<open>disk_image.cpp\<close> uses, sizes and offsets as
  \<open>unsigned long\<close>, which is the type in which the accessors return them.
  \<open>m_sectorHeaders\<close> is an array of 720 slots, a function on the indices \<open>0..719\<close>
  here; \<open>m_proSectorHeader\<close> holds the raw bytes of the last PRO sector header read.
  The constructor sets \<open>m_fileRef\<close> to \<open>NULL\<close> and nothing else.
\<close>

record DiskImage =
  m_fileRef :: "nat option"
  m_fileSize :: ulong
  m_type :: image_type
  m_headerSize :: ulong
  m_sectorSize :: ulong
  m_readOnly :: bool
  m_sectorReadDelay :: nat
  m_usePhantoms :: bool
  m_phantomFlip :: bool
  m_sectorHeaders :: "nat \<Rightarrow> ATXSectorHeader"
  m_proSectorHeader :: "byte list"
  m_sectorBuffer :: SectorPacket


definition getType :: "DiskImage \<Rightarrow> image_type" where
  "getType d = m_type d"

definition getSectorSize :: "DiskImage \<Rightarrow> ulong" where
  "getSectorSize d = m_sectorSize d"

definition hasImage :: "DiskImage \<Rightarrow> bool" where
  "hasImage d = (m_fileRef d \<noteq> None)"

definition hasCopyProtection :: "DiskImage \<Rightarrow> bool" where
  "hasCopyProtection d = (m_type d = TYPE_PRO \<or> m_type d = TYPE_ATX)"

definition isEnhancedDensity :: "DiskImage \<Rightarrow> bool" where
  "isEnhancedDensity d =
     (m_fileSize d = FORMAT_SS_ED_35 + m_headerSize d \<or> m_fileSize d = FORMAT_SS_ED_40 + m_headerSize d)"

definition isDoubleDensity :: "DiskImage \<Rightarrow> bool" where
  "isDoubleDensity d =
     (m_fileSize d = FORMAT_SS_DD_35 + m_headerSize d \<or> m_fileSize d = FORMAT_SS_DD_40 + m_headerSize d)"

definition isReadOnly :: "DiskImage \<Rightarrow> bool" where
  "isReadOnly d = m_readOnly d"

section \<open>Format detection: loadFile\<close>

text \<open>
  The four reads of a 32-bit field as lines 278 to 281, 298 to 301 and 324 to 327 of the
  source make them: the first byte, plus the second times 256, the third times 512 and
  the fourth times 768, each product computed in \<open>int\<close> and then added into an
  \<open>unsigned long\<close>.
\<close>

definition read_ulong :: "SdFile \<Rightarrow> ulong \<times> SdFile" where
  "read_ulong f =
     (let (b0, f1) = read f; (b1, f2) = read f1; (b2, f3) = read f2; (b3, f4) = read f3
      in (word_of_int b0 + word_of_int (mul_int b1 256) + word_of_int (mul_int b2 512)
            + word_of_int (mul_int b3 768),
          f4))"

text \<open>The loop that sets every slot's sector number to 60000; \<open>n\<close> is the loop bound.\<close>

primrec clear_slots :: "nat \<Rightarrow> (nat \<Rightarrow> ATXSectorHeader) \<Rightarrow> (nat \<Rightarrow> ATXSectorHeader)" where
  "clear_slots 0 hs = hs"
| "clear_slots (Suc n) hs = (let hs' = clear_slots n hs in hs'(n := (hs' n)\<lparr>sectorNumber := 60000\<rparr>))"

text \<open>
  The loop over the sector entries of one track: the first argument counts the
  remaining iterations, \<open>i2\<close> is the loop variable. A store outside the 720 slots of
  \<open>m_sectorHeaders\<close> has no defined result: the model stops with \<open>None\<close>.
\<close>

fun sector_loop ::
  "nat \<Rightarrow> int \<Rightarrow> byte \<Rightarrow> ulong \<Rightarrow> (nat \<Rightarrow> ATXSectorHeader) \<Rightarrow> SdFile
     \<Rightarrow> ((nat \<Rightarrow> ATXSectorHeader) \<times> SdFile) option" where
  "sector_loop 0 i2 trackNumber fileIdx hs file = Some (hs, file)"
| "sector_loop (Suc n) i2 trackNumber fileIdx hs file =
     (let (sn, f1) = read file;
          sectorNum = (word_of_int sn :: byte);
          (ss, f2) = read f1;
          sectorStatus = (word_of_int ss :: byte);
          (skipped, f3) = reads 2 f2;
          (l2, f4) = read_ulong f3;
          slot = add_int (mul_int (uint trackNumber) 18) i2
      in if 0 \<le> slot \<and> slot < 720 then
           sector_loop n (add_int i2 1) trackNumber fileIdx
             (hs(nat slot :=
                \<lparr>sectorNumber =
                   word_of_int (add_int (mul_int (uint trackNumber) 18)
                                  (add_int (uint sectorNum) (- 1))),
                 fileIndex = fileIdx + l2,
                 sstatus = sectorStatus\<rparr>))
             f4
         else None)"

text \<open>The loop over the 40 track records; the first argument counts the remaining tracks,
  \<open>fileIdx\<close> is the local variable \<open>fileIndex\<close>.\<close>

fun track_loop ::
  "nat \<Rightarrow> ulong \<Rightarrow> (nat \<Rightarrow> ATXSectorHeader) \<Rightarrow> SdFile
     \<Rightarrow> ((nat \<Rightarrow> ATXSectorHeader) \<times> SdFile) option" where
  "track_loop 0 fileIdx hs file = Some (hs, file)"
| "track_loop (Suc n) fileIdx hs file =
     (let (trackRecordSize, f1) = read_ulong file;
          (skipped1, f2) = reads 4 f1;
          (tn, f3) = read f2;
          trackNumber = (word_of_int tn :: byte);
          (skipped2, f4) = read f3;
          (c0, f5) = read f4;
          (c1, f6) = read f5;
          sectorCount = add_int c0 (mul_int c1 256);
          (skipped3, f7) = reads 8 f6;
          (l2, f8) = read_ulong f7;
          f9 = seekSet (fileIdx + l2) f8;
          (skipped4, f10) = reads 8 f9
      in case sector_loop (nat sectorCount) 0 trackNumber fileIdx hs f10 of
           None \<Rightarrow> None
         | Some (hs', f11) \<Rightarrow>
             track_loop n (fileIdx + trackRecordSize) hs'
               (seekSet (fileIdx + trackRecordSize) f11))"

text \<open>
  The ATX branch after its assignments: the index is cleared, the location of the first
  track record is read at byte 28 (the four reads of line 269 taken from left to right)
  and the 40 track records are walked.
\<close>

definition build_index :: "DiskImage \<Rightarrow> SdFile \<Rightarrow> (DiskImage \<times> SdFile) option" where
  "build_index d file =
     (let hs = clear_slots 720 (m_sectorHeaders d);
          f1 = seekSet 28 file;
          (b0, f2) = read f1; (b1, f3) = read f2; (b2, f4) = read f3; (b3, f5) = read f4;
          fileIdx =
            (word_of_int
               (add_int (add_int (add_int b0 (mul_int b1 256)) (mul_int b2 512)) (mul_int b3 768))
             :: ulong);
          f6 = seekSet fileIdx f5
      in case track_loop 40 fileIdx hs f6 of
           None \<Rightarrow> None
         | Some (hs', f7) \<Rightarrow> Some (d\<lparr>m_sectorHeaders := hs'\<rparr>, f7))"

text \<open>The \<open>switch\<close> on the phantom sector mode; a mode it does not list changes nothing.\<close>

definition set_phantom_mode :: "byte \<Rightarrow> DiskImage \<Rightarrow> DiskImage" where
  "set_phantom_mode m d =
     (if m = PSM_SIMPLE \<or> m = PSM_MINDSCAPE_SPECIAL \<or> m = PSM_STICKY \<or> m = PSM_SHIMMERING
         \<or> m = PSM_REVERSE_SHIMMER
      then d\<lparr>m_usePhantoms := False\<rparr>
      else if m = PSM_GLOBAL_FLIP_FLOP then d\<lparr>m_usePhantoms := True, m_phantomFlip := False\<rparr>
      else if m = PSM_GLOBAL_FLOP_FLIP then d\<lparr>m_usePhantoms := True, m_phantomFlip := True\<rparr>
      else d)"

text \<open>
  The four tests of \<open>loadFile\<close>, in the order in which it makes them: the condition of
  line 202 on the ATR signature, the condition of line 218 on the PRO sector count and
  magic byte (\<open>fsize\<close> is \<open>m_fileSize\<close>, \<open>0x50\<close> is the character P, and the count is
  computed in \<open>int\<close> and converted to \<open>unsigned long\<close> for the comparison), the condition
  of line 251 on the characters A, T, 8, X, and the condition of line 348 on the
  extension and the file size.
\<close>

definition ATR_check :: "byte list \<Rightarrow> bool" where
  "ATR_check header = (ATRHeader_signature header = ATR_SIGNATURE)"

definition PRO_check :: "ulong \<Rightarrow> byte list \<Rightarrow> bool" where
  "PRO_check fsize header =
     (word_of_int (add_int (mul_int (uint (sectorCountHi header)) 256)
                      (uint (sectorCountLo header)))
        = (fsize - 16) div (SECTOR_SIZE_SD + of_nat sizeof_PROSectorHeader)
      \<and> magic header = 0x50)"

definition ATX_check :: "byte list \<Rightarrow> bool" where
  "ATX_check header =
     (header ! 0 = 0x41 \<and> header ! 1 = 0x54 \<and> header ! 2 = 0x38 \<and> header ! 3 = 0x58)"

definition XFD_check :: "string \<Rightarrow> ulong \<Rightarrow> bool" where
  "XFD_check extension fsize =
     ((extension = ''.XFD'' \<or> extension = ''.xfd'') \<and> fsize = FORMAT_SS_SD_40)"

text \<open>
  \<open>loadFile\<close> returns its boolean with the updated image and file. The read delay is a
  byte times 16, which needs no reduction. The extension is
  taken at \<open>filename + len - 4\<close>: for a name of fewer than four characters that address
  lies before the buffer and the comparison reads memory the model does not have, so
  there is no result (\<open>None\<close>).
\<close>

definition loadFile :: "DiskImage \<Rightarrow> SdFile \<Rightarrow> (bool \<times> DiskImage \<times> SdFile) option" where
  "loadFile d file =
     (let (header, f1) = read_bytes 16 (seekSet 0 file);
          f2 = seekSet 0 f1
      in if ATR_check header then
           Some (True,
                 d\<lparr>m_type := TYPE_ATR, m_headerSize := 16, m_readOnly := False,
                   m_sectorSize := ucast (ATRHeader_secSize header), m_sectorReadDelay := 0\<rparr>,
                 f2)
         else if PRO_check (m_fileSize d) header then
           Some (True,
                 set_phantom_mode (phantomSectorMode header)
                   (d\<lparr>m_type := TYPE_PRO, m_readOnly := True, m_headerSize := 16,
                      m_sectorSize := SECTOR_SIZE_SD,
                      m_sectorReadDelay := unat (sectorReadDelay header) * (1000 div 60)\<rparr>),
                 f2)
         else if ATX_check header then
           (case build_index
                   (d\<lparr>m_type := TYPE_ATX, m_readOnly := True, m_sectorReadDelay := 0,
                      m_sectorSize := 128, m_phantomFlip := False\<rparr>) f2 of
              None \<Rightarrow> None
            | Some (d', f3) \<Rightarrow> Some (True, d', f3))
         else
           (let fname = getFilename f2;
                len = length fname
            in if len < 4 then None
               else if XFD_check (drop (len - 4) fname) (m_fileSize d) then
                 Some (True,
                       d\<lparr>m_type := TYPE_XFD, m_readOnly := False, m_headerSize := 0,
                         m_sectorSize := SECTOR_SIZE_SD, m_sectorReadDelay := 0\<rparr>,
                       f2)
               else Some (False, d, f2)))"

section \<open>Attaching a file: setFile\<close>

text \<open>A pointer that names no file object has no defined result (\<open>None\<close>).\<close>

definition setFile :: "DiskImage \<Rightarrow> heap \<Rightarrow> nat \<Rightarrow> (bool \<times> DiskImage \<times> heap) option" where
  "setFile d hp file =
     (case hp file of
        None \<Rightarrow> None
      | Some f \<Rightarrow>
          (let d1 = d\<lparr>m_fileRef := Some file, m_fileSize := fileSize f\<rparr>
           in case loadFile d1 f of
                None \<Rightarrow> None
              | Some (ok, d2, f') \<Rightarrow>
                  if ok then Some (True, d2, hp(file \<mapsto> f'))
                  else Some (False, d2\<lparr>m_fileRef := None\<rparr>, hp(file \<mapsto> f'))))"

text \<open>
  What an attach detects: the kind of the image when \<open>setFile\<close> returns true, and
  \<open>None\<close> when it returns false or has no result.
\<close>

definition detected :: "DiskImage \<Rightarrow> heap \<Rightarrow> nat \<Rightarrow> image_type option" where
  "detected d hp file =
     (case setFile d hp file of
        None \<Rightarrow> None
      | Some (ok, d', hp') \<Rightarrow> if ok then Some (m_type d') else None)"

text \<open>
  The 16 bytes that \<open>loadFile\<close> has in \<open>header\<close>: the start of the file, and \<open>0xFF\<close>
  (the cast of \<open>-1\<close>) for each read past its end.
\<close>

definition header_of :: "SdFile \<Rightarrow> byte list" where
  "header_of f = take 16 (contents f) @ replicate (16 - length (contents f)) 255"

section \<open>Reading a sector: getSectorData\<close>

text \<open>
  The search of the ATX index: \<open>i\<close> is the loop variable and \<open>ix\<close> the last matching
  slot so far (\<open>-1\<close> for none). A match ends the loop when \<open>m_phantomFlip\<close> is false.
\<close>

function find_slot :: "(nat \<Rightarrow> ATXSectorHeader) \<Rightarrow> ulong \<Rightarrow> bool \<Rightarrow> nat \<Rightarrow> int \<Rightarrow> int" where
  "find_slot hs sector flip i ix =
     (if i < 720 then
        (if ucast (sectorNumber (hs i)) = sector - 1 then
           (if \<not> flip then int i else find_slot hs sector flip (Suc i) (int i))
         else find_slot hs sector flip (Suc i) ix)
      else ix)"
  by pat_completeness auto
termination
  by (relation "measure (\<lambda>(hs, sector, flip, i, ix). 720 - i)") auto

declare find_slot.simps [simp del]

text \<open>The branch for a PRO image, up to the inversion of \<open>m_phantomFlip\<close>.\<close>

definition getSectorData_PRO :: "DiskImage \<Rightarrow> SdFile \<Rightarrow> ulong \<Rightarrow> DiskImage \<times> SdFile" where
  "getSectorData_PRO d file sector =
     (let stride = m_sectorSize d + of_nat sizeof_PROSectorHeader;
          f1 = seekSet (m_headerSize d + (sector - 1) * stride) file;
          (hdr, f2) = read_bytes sizeof_PROSectorHeader f1;
          hw = hardwareStatus (StatusFrame_of hdr);
          buf1 = (m_sectorBuffer d)
                   \<lparr>statusFrame := StatusFrame_of (take sizeof_StatusFrame hdr),
                    validStatusFrame := True\<rparr>;
          bad = (\<not> crcError hw \<or> \<not> dataLostOrTrack0 hw \<or> \<not> recordNotFound hw);
          buf2 = (if bad then buf1\<lparr>error := True\<rparr> else buf1);
          f3 = (if \<not> bad \<and> m_usePhantoms d \<and> totalPhantoms hdr > 0 \<and> m_phantomFlip d
                then seekSet (m_headerSize d
                                + word_of_int (add_int (add_int 720 (uint (phantom1 hdr))) (- 1))
                                    * stride
                                + of_nat sizeof_PROSectorHeader) f2
                else f2)
      in (d\<lparr>m_proSectorHeader := hdr, m_sectorBuffer := buf2,
            m_phantomFlip := \<not> m_phantomFlip d\<rparr>, f3))"

text \<open>The branch for an ATX image, up to the inversion of \<open>m_phantomFlip\<close>.\<close>

definition getSectorData_ATX :: "DiskImage \<Rightarrow> SdFile \<Rightarrow> ulong \<Rightarrow> DiskImage \<times> SdFile" where
  "getSectorData_ATX d file sector =
     (let ix = find_slot (m_sectorHeaders d) sector (m_phantomFlip d) 0 (- 1);
          buf1 = (m_sectorBuffer d)\<lparr>validStatusFrame := True\<rparr>;
          (buf2, f1) =
            (if ix > - 1 then
               (let h = m_sectorHeaders d (nat ix);
                    b = (if sstatus h > 0 then buf1\<lparr>error := True\<rparr> else buf1)
                in (b\<lparr>statusFrame := (statusFrame b)
                        \<lparr>hardwareStatus := NOT (sstatus h), commandStatus := 0x10,
                         timeout_lsb := 0xE0\<rparr>\<rparr>,
                    seekSet (fileIndex h) file))
             else
               (buf1\<lparr>error := True,
                     statusFrame := (statusFrame buf1)
                       \<lparr>hardwareStatus := 0xF7, commandStatus := 0x10, timeout_lsb := 0xE0\<rparr>\<rparr>,
                seekSet 0 file))
      in (d\<lparr>m_sectorBuffer := buf2, m_phantomFlip := \<not> m_phantomFlip d\<rparr>, f1))"

text \<open>
  The loop of lines 129 to 131: \<open>i\<close> is the counter, an \<open>int\<close> that is converted to
  \<open>unsigned long\<close> for the comparison with \<open>m_sectorSize\<close> (here \<open>n\<close>) and incremented
  in \<open>int\<close>; each round reads one byte and stores it at index \<open>i\<close> of the data. A store
  at an index outside the array is undefined in the program; the list is then left as
  it is, so that what the loop gives is the program's result where every store falls
  inside the array.
\<close>

definition store_byte :: "byte list \<Rightarrow> int \<Rightarrow> byte \<Rightarrow> byte list" where
  "store_byte dat i v = (if 0 \<le> i \<and> nat i < length dat then dat[nat i := v] else dat)"

function data_loop :: "int \<Rightarrow> ulong \<Rightarrow> SdFile \<Rightarrow> byte list \<Rightarrow> byte list \<times> SdFile" where
  "data_loop i n file dat =
     (if (word_of_int i :: ulong) < n then
        (let (b, f1) = read file
         in data_loop (add_int i 1) n f1 (store_byte dat i (word_of_int b)))
      else (dat, file))"
  by pat_completeness auto
termination
proof (relation "measure (\<lambda>(i, n, fl, dat).
          (if - 32768 \<le> i \<and> i < 32768 then 0 else 65536) + nat ((- 1 - i) mod 65536))")
  show "wf (measure (\<lambda>(i, n, fl, dat).
          (if - 32768 \<le> i \<and> i < 32768 then 0 else 65536) + nat ((- 1 - i) mod 65536)))"
    by simp
next
  fix i :: int and n :: ulong and fl :: SdFile and dat x xa y
  assume less: "(word_of_int i :: ulong) < n"
  have r: "- 32768 \<le> add_int i 1 \<and> add_int i 1 < 32768"
    by (simp add: add_int_def cint_def)
  have m: "(- 1 - add_int i 1) mod 65536 = (- 1 - i - 1) mod 65536"
    unfolding add_int_def cint_def by (simp add: mod_diff_right_eq)
  show "((add_int i 1, n, y, store_byte dat i (word_of_int xa)), (i, n, fl, dat))
        \<in> measure (\<lambda>(i, n, fl, dat).
          (if - 32768 \<le> i \<and> i < 32768 then 0 else 65536) + nat ((- 1 - i) mod 65536))"
  proof (cases "- 32768 \<le> i \<and> i < 32768")
    case False
    have "nat ((- 1 - add_int i 1) mod 65536) < 65536"
      by (simp add: nat_less_iff)
    then show ?thesis using False r by auto
  next
    case True
    have "\<not> (word_of_int (- 1) :: ulong) < n"
      by (simp add: word_order.extremum_strict)
    then have ne: "i \<noteq> - 1" using less by auto
    let ?k = "(- 1 - i) mod 65536"
    have k0: "?k \<noteq> 0"
    proof
      assume "?k = 0"
      moreover have "(- 1 - i) mod 65536 = - 1 - i" if "i \<le> - 1"
        using True that by (intro mod_pos_pos_trivial) simp_all
      moreover have "(- 1 - i) mod 65536 = 65535 - i" if "\<not> i \<le> - 1"
      proof -
        have "(- 1 - i + 65536) mod 65536 = (- 1 - i) mod 65536"
          by (rule mod_add_self2)
        then have "(- 1 - i) mod 65536 = (- 1 - i + 65536) mod 65536" by (rule sym)
        also have "\<dots> = - 1 - i + 65536"
          using True that by (intro mod_pos_pos_trivial) simp_all
        finally show ?thesis by simp
      qed
      ultimately show False using True ne by (cases "i \<le> - 1") simp_all
    qed
    have kr: "0 \<le> ?k" "?k < 65536" by simp_all
    have "(- 1 - i - 1) mod 65536 = (?k - 1) mod 65536"
      by (simp add: mod_diff_left_eq)
    also have "\<dots> = ?k - 1"
      using k0 kr by (intro mod_pos_pos_trivial) simp_all
    finally have "(- 1 - add_int i 1) mod 65536 = ?k - 1" using m by simp
    then show ?thesis using True r k0 kr by simp
  qed
qed

declare data_loop.simps [simp del]

text \<open>
  \<open>getSectorData\<close> returns a pointer to \<open>m_sectorBuffer\<close>: the packet is that member of
  the image returned. The call of \<open>delay\<close> changes no state. With no file attached the
  first access goes through a null pointer: no result.
\<close>

definition getSectorData :: "DiskImage \<Rightarrow> heap \<Rightarrow> ulong \<Rightarrow> (DiskImage \<times> heap) option" where
  "getSectorData d hp sector =
     (case m_fileRef d of
        None \<Rightarrow> None
      | Some r \<Rightarrow>
          (case hp r of
             None \<Rightarrow> None
           | Some file \<Rightarrow>
               (let d0 = d\<lparr>m_sectorBuffer := (m_sectorBuffer d)
                            \<lparr>length_pkt := m_sectorSize d, error := False,
                             validStatusFrame := False\<rparr>\<rparr>;
                    (d1, f1) =
                      (if m_type d0 = TYPE_PRO then getSectorData_PRO d0 file sector
                       else if m_type d0 = TYPE_ATX then getSectorData_ATX d0 file sector
                       else (d0, seekSet (m_headerSize d0 + (sector - 1) * m_sectorSize d0) file));
                    (dat, f2) = data_loop 0 (m_sectorSize d1) f1 (data (m_sectorBuffer d1))
                in Some (d1\<lparr>m_sectorBuffer := (m_sectorBuffer d1)\<lparr>data := dat\<rparr>\<rparr>,
                         hp(r \<mapsto> f2)))))"

section \<open>Writing a sector: writeSectorData\<close>

text \<open>
  The bytes written are the first \<open>len\<close> bytes at \<open>data\<close> (here \<open>dat\<close>); a \<open>len\<close>
  beyond the buffer passed has no defined result. \<open>return false\<close> is the value 0.
\<close>

definition writeSectorData ::
  "DiskImage \<Rightarrow> heap \<Rightarrow> ulong \<Rightarrow> byte list \<Rightarrow> ulong \<Rightarrow> (ulong \<times> heap) option" where
  "writeSectorData d hp sector dat len =
     (if \<not> m_readOnly d then
        (case m_fileRef d of
           None \<Rightarrow> None
         | Some r \<Rightarrow>
             (case hp r of
                None \<Rightarrow> None
              | Some file \<Rightarrow>
                  if unat len \<le> length dat then
                    (let offset = m_headerSize d + (sector - 1) * m_sectorSize d;
                         (n, f1) = write_file (take (unat len) dat) (seekSet offset file)
                     in Some (of_nat n, hp(r \<mapsto> f1)))
                  else None))
      else Some (0, hp))"

section \<open>Formatting: format\<close>




section \<open>The states of an image\<close>


section \<open>Sample states\<close>

text \<open>
  An image as the constructor leaves it, the members it does not initialise at zero
  (with a data array of 256 bytes, which holds a sector of the double density), and a
  store holding one file at address 0.
\<close>

definition blank_image :: DiskImage where
  "blank_image =
     \<lparr>m_fileRef = None, m_fileSize = 0, m_type = TYPE_ATR, m_headerSize = 0, m_sectorSize = 0,
      m_readOnly = False, m_sectorReadDelay = 0, m_usePhantoms = False, m_phantomFlip = False,
      m_sectorHeaders = (\<lambda>i. \<lparr>sectorNumber = 0, fileIndex = 0, sstatus = 0\<rparr>),
      m_proSectorHeader = [],
      m_sectorBuffer =
        \<lparr>length_pkt = 0, error = False, validStatusFrame = False,
         statusFrame = \<lparr>commandStatus = 0, hardwareStatus = 0, timeout_lsb = 0, timeout_msb = 0\<rparr>,
         data = replicate 256 0\<rparr>\<rparr>"

definition store1 :: "SdFile \<Rightarrow> heap" where
  "store1 f = (\<lambda>a. if a = 0 then Some f else None)"

text \<open>
  Sample files: a PRO image of one sector; a file that starts with the ATR signature
  and whose first three bytes and size also meet the cross-check of the PRO format
  (declared sector count and character P); a file that meets that cross-check with a
  declared count of 32768 sectors; a raw dump of 92160 bytes, named as an XFD
  image, that starts with the ATR signature; raw dumps of 92160 bytes named with the
  extension in upper and in mixed case; a short text file.
\<close>

definition pro_file :: SdFile where
  "pro_file =
     \<lparr>contents = [0, 1, 0x50, 0x33, 2, 0] @ replicate 150 0, curPosition = 0,
      filename = ''GAME.PRO''\<rparr>"

definition atr_pro_file :: SdFile where
  "atr_pro_file =
     \<lparr>contents = [0x96, 0x02, 0x50] @ replicate 5376293 0, curPosition = 0,
      filename = ''BOTH.ATR''\<rparr>"

definition long_pro_file :: SdFile where
  "long_pro_file =
     \<lparr>contents = [0x80, 0x00, 0x50] @ replicate 4587533 0, curPosition = 0,
      filename = ''LONG.PRO''\<rparr>"


definition xfd_file :: SdFile where
  "xfd_file = \<lparr>contents = replicate 92160 0, curPosition = 0, filename = ''GAME.XFD''\<rparr>"

definition mixed_xfd_file :: SdFile where
  "mixed_xfd_file = \<lparr>contents = replicate 92160 0, curPosition = 0, filename = ''GAME.Xfd''\<rparr>"

definition text_file :: SdFile where
  "text_file = \<lparr>contents = [0x48, 0x49], curPosition = 0, filename = ''NOTE.TXT''\<rparr>"

text \<open>
  An enhanced-density ATR image of 1040 sectors, the image that holds it once it is
  attached at address 1, and a store of two files.
\<close>

definition ed_atr_file :: SdFile where
  "ed_atr_file =
     \<lparr>contents = [0x96, 0x02, 0x80, 0x20, 0x80, 0x00] @ replicate 133130 0, curPosition = 0,
      filename = ''BIG.ATR''\<rparr>"

definition ed_image :: DiskImage where
  "ed_image =
     blank_image\<lparr>m_fileRef := Some 1, m_fileSize := 133136, m_type := TYPE_ATR,
       m_headerSize := 16, m_readOnly := False, m_sectorSize := 128, m_sectorReadDelay := 0\<rparr>"

definition store2 :: "SdFile \<Rightarrow> SdFile \<Rightarrow> heap" where
  "store2 f g = (\<lambda>a. if a = 0 then Some f else if a = 1 then Some g else None)"

text \<open>
  The image that holds \<open>pro_file\<close> once it is attached at address 0: the header of
  \<open>pro_file\<close> asks for phantom sector mode 2 and no read delay.
\<close>

definition pro_image :: DiskImage where
  "pro_image =
     blank_image\<lparr>m_fileRef := Some 0, m_fileSize := 156, m_type := TYPE_PRO,
       m_readOnly := True, m_headerSize := 16, m_sectorSize := 128, m_sectorReadDelay := 0,
       m_usePhantoms := True, m_phantomFlip := False\<rparr>"

text \<open>
  An ATX file of 65712 bytes: the signature, the location 48 of the first track record
  at byte 28, one track record of 48 bytes for track 0 with one sector entry (sector 1,
  status 0, start of the data given by the bytes \<open>00 00 01 00\<close>), and zero bytes after
  it.
\<close>

definition atx_prefix :: "byte list" where
  "atx_prefix =
     [0x41, 0x54, 0x38, 0x58, 0, 0, 0, 0, 0, 0, 0, 0, 0, 0, 0, 0,
      0, 0, 0, 0, 0, 0, 0, 0, 0, 0, 0, 0, 0x30, 0, 0, 0,
      0, 0, 0, 0, 0, 0, 0, 0, 0, 0, 0, 0, 0, 0, 0, 0,
      0x30, 0, 0, 0, 0, 0, 0, 0, 0, 0, 1, 0, 0, 0, 0, 0,
      0, 0, 0, 0, 0x20, 0, 0, 0, 0, 0, 0, 0, 0, 0, 0, 0,
      0, 0, 0, 0, 0, 0, 0, 0, 1, 0, 0, 0, 0, 0, 1, 0]"

definition atx_file :: SdFile where
  "atx_file =
     \<lparr>contents = atx_prefix @ replicate 65616 0, curPosition = 0, filename = ''GAME.ATX''\<rparr>"

text \<open>
  The image that holds \<open>atx_file\<close> once it is attached at address 0: slot 0 is the one
  sector of track 0, every other slot has the sector number 60000.
\<close>

definition atx_image :: DiskImage where
  "atx_image =
     blank_image\<lparr>m_fileRef := Some 0, m_fileSize := 65712, m_type := TYPE_ATX,
       m_readOnly := True, m_sectorReadDelay := 0, m_sectorSize := 128, m_phantomFlip := False,
       m_sectorHeaders :=
         (\<lambda>i. if i = 0 then \<lparr>sectorNumber = 0, fileIndex = 560, sstatus = 0\<rparr>
              else if i < 720 then \<lparr>sectorNumber = 60000, fileIndex = 0, sstatus = 0\<rparr>
              else \<lparr>sectorNumber = 0, fileIndex = 0, sstatus = 0\<rparr>)\<rparr>"

text \<open>
  The condition of line 87 for slot \<open>i\<close>, and a request that matches no populated
  slot: the condition fails for every slot that no longer has the number 60000.
\<close>

definition slot_matches :: "DiskImage \<Rightarrow> ulong \<Rightarrow> nat \<Rightarrow> bool" where
  "slot_matches d sector i = (ucast (sectorNumber (m_sectorHeaders d i)) = sector - 1)"

definition no_populated_slot_matches :: "DiskImage \<Rightarrow> ulong \<Rightarrow> bool" where
  "no_populated_slot_matches d sector =
     (\<forall>i<720. sectorNumber (m_sectorHeaders d i) \<noteq> 60000 \<longrightarrow> \<not> slot_matches d sector i)"

text \<open>
  The decoding of four bytes as a little-endian 32-bit integer, in the words of the
  spec: the first byte, plus the second times \<open>2 ^ 8\<close>, the third times \<open>2 ^ 16\<close> and
  the fourth times \<open>2 ^ 24\<close>.
\<close>

definition little_endian_32 :: "byte \<Rightarrow> byte \<Rightarrow> byte \<Rightarrow> byte \<Rightarrow> ulong" where
  "little_endian_32 b0 b1 b2 b3 =
     ucast b0 + ucast b1 * 2 ^ 8 + ucast b2 * 2 ^ 16 + ucast b3 * 2 ^ 24"

section \<open>Bytes and words\<close>

lemma unat_lt256: "unat (b :: byte) < 256"
  using unsigned_less [of b, where ?'a = nat] by simp

lemma unat_of_nat16: "n < 65536 \<Longrightarrow> unat (of_nat n :: uint16) = n"
  by (simp add: unat_of_nat)

lemma unat_of_nat32: "n < 4294967296 \<Longrightarrow> unat (of_nat n :: ulong) = n"
  by (simp add: unat_of_nat)

lemma byte_eq_unat: "b = (of_nat n :: byte) \<longleftrightarrow> unat b = n" if "n < 256"
proof
  assume "b = of_nat n"
  then show "unat b = n" using that by (simp add: unat_of_nat)
next
  assume "unat b = n"
  then have "of_nat (unat b) = (of_nat n :: byte)" by (rule arg_cong)
  then show "b = of_nat n" by (simp only: of_nat_unat ucast_id)
qed

lemma le16_unat: "unat (le16 lo hi) = unat lo + 256 * unat hi"
proof -
  have "le16 lo hi = of_nat (unat lo + 256 * unat hi)"
    by (simp add: le16_def)
  moreover have "unat lo + 256 * unat hi < 65536"
    using unat_lt256 [of lo] unat_lt256 [of hi] by simp
  ultimately show ?thesis
    by (simp only: unat_of_nat16)
qed

lemma split_le16: "a + 256 * b = 662 \<longleftrightarrow> a = 150 \<and> b = 2" if "a < 256" for a b :: nat
proof
  assume e: "a + 256 * b = 662"
  have "(a + 256 * b) div 256 = b" using that by simp
  with e have b: "b = 2" by simp
  with e show "a = 150 \<and> b = 2" by simp
qed simp

text \<open>The ATR test holds exactly when the header starts with the bytes \<open>0x96 0x02\<close>.\<close>

lemma ATR_check_iff: "ATR_check h \<longleftrightarrow> h ! 0 = 0x96 \<and> h ! 1 = 0x02"
proof -
  have s: "unat (0x0296 :: uint16) = 662" by simp
  have "ATR_check h \<longleftrightarrow> unat (h ! 0) + 256 * unat (h ! 1) = 662"
    unfolding ATR_check_def ATRHeader_signature_def ATR_SIGNATURE_def word_unat_eq_iff le16_unat s ..
  also have "\<dots> \<longleftrightarrow> unat (h ! 0) = 150 \<and> unat (h ! 1) = 2"
    by (rule split_le16) (rule unat_lt256)
  also have "\<dots> \<longleftrightarrow> h ! 0 = 0x96 \<and> h ! 1 = 0x02"
    using byte_eq_unat [of 150 "h ! 0"] byte_eq_unat [of 2 "h ! 1"] by simp
  finally show ?thesis .
qed

lemma cint_small: "- 32768 \<le> x \<Longrightarrow> x < 32768 \<Longrightarrow> cint x = x"
  by (simp add: cint_def)

lemma cint_high: "32768 \<le> x \<Longrightarrow> x < 65536 \<Longrightarrow> cint x = x - 65536"
proof -
  assume a: "32768 \<le> x" "x < 65536"
  have "(x + 32768) mod 65536 = (x + 32768 - 65536) mod 65536"
    by (metis mod_add_self2 diff_add_cancel)
  also have "\<dots> = x + 32768 - 65536"
    using a by (intro mod_pos_pos_trivial) simp_all
  finally show ?thesis by (simp add: cint_def)
qed

lemma count_int_low:
  assumes "0 \<le> A" "A < 128" "0 \<le> B" "B < 256"
  shows "add_int (mul_int A 256) B = A * 256 + B"
proof -
  have "mul_int A 256 = A * 256"
    unfolding mul_int_def using assms by (intro cint_small) simp_all
  moreover have "cint (A * 256 + B) = A * 256 + B"
    using assms by (intro cint_small) simp_all
  ultimately show ?thesis by (simp add: add_int_def)
qed

lemma count_int_high:
  assumes "128 \<le> A" "A < 256" "0 \<le> B" "B < 256"
  shows "add_int (mul_int A 256) B = A * 256 + B - 65536"
proof -
  have "mul_int A 256 = A * 256 - 65536"
    unfolding mul_int_def using assms by (intro cint_high) simp_all
  moreover have "cint (A * 256 - 65536 + B) = A * 256 - 65536 + B"
    using assms by (intro cint_small) simp_all
  ultimately show ?thesis by (simp add: add_int_def)
qed

lemma uint_lt256: "uint (b :: byte) < 256"
  using unsigned_less [of b, where ?'a = int] by simp

lemma ulong_div_140: "uint ((x :: ulong) div 140) \<le> 30678337"
proof -
  have "uint (x div 140) = uint x div 140"
    by (simp add: uint_div)
  moreover have "uint x < 4294967296"
    using unsigned_less [of x, where ?'a = int] by simp
  ultimately show ?thesis by simp
qed

text \<open>
  The PRO test with the sector count as a natural number. The count is computed in
  \<open>int\<close>: with a high byte below 128 it is the high byte times 256 plus the low byte;
  with a high byte of 128 or more the product is reduced to a negative \<open>int\<close>, whose
  conversion to \<open>unsigned long\<close> is above every quotient by 140, and the test fails.
\<close>

lemma PRO_check_iff:
  "PRO_check fsize h \<longleftrightarrow>
     unat (h ! 0) < 128
     \<and> unat (h ! 0) * 256 + unat (h ! 1) = unat ((fsize - 16) div (128 + 12)) \<and> h ! 2 = 0x50"
proof -
  let ?a = "unat (h ! 0)" and ?b = "unat (h ! 1)"
  let ?A = "uint (h ! 0)" and ?B = "uint (h ! 1)"
  let ?k = "?a * 256 + ?b"
  let ?v = "add_int (mul_int ?A 256) ?B"
  let ?X = "(fsize - 16) div (128 + 12)"
  have ab: "?a < 256" "?b < 256" by (rule unat_lt256)+
  have ia: "?A = int ?a" and ib: "?B = int ?b" by (rule uint_nat)+
  have A: "0 \<le> ?A" "?A < 256" and B: "0 \<le> ?B" "?B < 256"
    using uint_lt256 [of "h ! 0"] uint_lt256 [of "h ! 1"] by simp_all
  have g: "(n < 128) = (int n < 128)" for n :: nat by simp
  have lt: "?a < 128 \<longleftrightarrow> ?A < 128" unfolding ia by (rule g)
  have gk: "int a * 256 + int b = int (a * 256 + b)" for a b :: nat by simp
  have d: "PRO_check fsize h \<longleftrightarrow> (word_of_int ?v :: ulong) = ?X \<and> h ! 2 = 0x50"
    by (simp add: PRO_check_def sectorCountHi_def sectorCountLo_def magic_def SECTOR_SIZE_SD_def
          sizeof_PROSectorHeader_def)
  show ?thesis
  proof (cases "?A < 128")
    case True
    have "?v = ?A * 256 + ?B"
      using A(1) True B by (rule count_int_low)
    also have "\<dots> = int ?k" unfolding ia ib by (rule gk)
    finally have v: "?v = int ?k" .
    have k: "?k < 4294967296" using ab by simp
    have e: "(word_of_int ?v :: ulong) = of_nat ?k"
      unfolding v by (simp only: of_int_of_nat_eq)
    have un: "unat (of_nat ?k :: ulong) = ?k"
      using k by (rule unat_of_nat32)
    have "(of_nat ?k :: ulong) = x \<longleftrightarrow> ?k = unat x" for x
    proof
      assume "of_nat ?k = x"
      then show "?k = unat x" using un by simp
    next
      assume "?k = unat x"
      then have "of_nat ?k = (of_nat (unat x) :: ulong)" by (rule arg_cong)
      then show "of_nat ?k = x" by (simp only: of_nat_unat ucast_id)
    qed
    then show ?thesis unfolding d e using True lt by simp
  next
    case False
    have hi: "128 \<le> ?A" using False by simp
    have v: "?v = ?A * 256 + ?B - 65536"
      using hi A(2) B by (rule count_int_high)
    have vr: "- 32768 \<le> ?v" "?v < 0" unfolding v using hi A(2) B by linarith+
    have "uint (word_of_int ?v :: ulong) = ?v mod 4294967296"
      by (simp add: uint_word_of_int)
    also have "\<dots> = (?v + 4294967296) mod 4294967296" by simp
    also have "\<dots> = ?v + 4294967296"
      using vr by (intro mod_pos_pos_trivial) simp_all
    finally have "uint (word_of_int ?v :: ulong) > 30678337" using vr by simp
    then have "(word_of_int ?v :: ulong) \<noteq> ?X"
      using ulong_div_140 [of "fsize - 16"] by auto
    then show ?thesis unfolding d using False lt by simp
  qed
qed

section \<open>Reading from the file\<close>

lemma reads_eq:
  "curPosition f \<le> length (contents f) \<Longrightarrow>
   reads n f =
     (map uint (take n (drop (curPosition f) (contents f)))
        @ replicate (n - (length (contents f) - curPosition f)) (- 1),
      f\<lparr>curPosition := min (curPosition f + n) (length (contents f))\<rparr>)"
proof (induction n arbitrary: f)
  case 0
  then show ?case by simp
next
  case (Suc n)
  show ?case
  proof (cases "curPosition f < length (contents f)")
    case True
    let ?g = "f\<lparr>curPosition := Suc (curPosition f)\<rparr>"
    have r: "read f = (uint (contents f ! curPosition f), ?g)"
      using True by (simp add: read_def)
    have g: "curPosition ?g \<le> length (contents ?g)" using True by simp
    have d: "drop (curPosition f) (contents f)
               = contents f ! curPosition f # drop (Suc (curPosition f)) (contents f)"
      using True by (simp add: Cons_nth_drop_Suc)
    show ?thesis
      using Suc.IH [OF g] True by (simp add: r d min_def)
  next
    case False
    then have e: "curPosition f = length (contents f)" using Suc.prems by simp
    have r: "read f = (- 1, f)" using False by (simp add: read_def)
    show ?thesis
      using Suc.IH [OF Suc.prems] e by (simp add: r replicate_Suc [symmetric] del: replicate_Suc)
  qed
qed

lemma read_bytes_eq:
  "curPosition f \<le> length (contents f) \<Longrightarrow>
   read_bytes n f =
     (take n (drop (curPosition f) (contents f))
        @ replicate (n - (length (contents f) - curPosition f)) 255,
      f\<lparr>curPosition := min (curPosition f + n) (length (contents f))\<rparr>)"
  by (simp add: read_bytes_def reads_eq comp_def)

lemma seekSet_0: "seekSet 0 f = f\<lparr>curPosition := 0\<rparr>"
  by (simp add: seekSet_def)

lemma read_header:
  "read_bytes 16 (seekSet 0 f) = (header_of f, f\<lparr>curPosition := min 16 (length (contents f))\<rparr>)"
  by (simp add: seekSet_0 read_bytes_eq header_of_def)

section \<open>Detection, branch by branch\<close>

lemma set_phantom_mode_fields:
  "m_type (set_phantom_mode m d) = m_type d"
  "m_readOnly (set_phantom_mode m d) = m_readOnly d"
  "m_headerSize (set_phantom_mode m d) = m_headerSize d"
  "m_sectorSize (set_phantom_mode m d) = m_sectorSize d"
  "m_fileRef (set_phantom_mode m d) = m_fileRef d"
  "m_fileSize (set_phantom_mode m d) = m_fileSize d"
  by (simp_all add: set_phantom_mode_def)

lemma build_index_frame:
  "build_index d f = Some (d', f') \<Longrightarrow> d' = d\<lparr>m_sectorHeaders := m_sectorHeaders d'\<rparr>"
  by (auto simp: build_index_def Let_def split: prod.splits option.splits)

text \<open>\<open>loadFile\<close> with the header read and the file rewound.\<close>

lemma loadFile_header:
  "loadFile d file =
     (let header = header_of file; f2 = file\<lparr>curPosition := 0\<rparr>
      in if ATR_check header then
           Some (True,
                 d\<lparr>m_type := TYPE_ATR, m_headerSize := 16, m_readOnly := False,
                   m_sectorSize := ucast (ATRHeader_secSize header), m_sectorReadDelay := 0\<rparr>,
                 f2)
         else if PRO_check (m_fileSize d) header then
           Some (True,
                 set_phantom_mode (phantomSectorMode header)
                   (d\<lparr>m_type := TYPE_PRO, m_readOnly := True, m_headerSize := 16,
                      m_sectorSize := SECTOR_SIZE_SD,
                      m_sectorReadDelay := unat (sectorReadDelay header) * (1000 div 60)\<rparr>),
                 f2)
         else if ATX_check header then
           (case build_index
                   (d\<lparr>m_type := TYPE_ATX, m_readOnly := True, m_sectorReadDelay := 0,
                      m_sectorSize := 128, m_phantomFlip := False\<rparr>) f2 of
              None \<Rightarrow> None
            | Some (d', f3) \<Rightarrow> Some (True, d', f3))
         else if length (filename file) < 4 then None
         else if XFD_check (drop (length (filename file) - 4) (filename file)) (m_fileSize d) then
           Some (True,
                 d\<lparr>m_type := TYPE_XFD, m_readOnly := False, m_headerSize := 0,
                   m_sectorSize := SECTOR_SIZE_SD, m_sectorReadDelay := 0\<rparr>,
                 f2)
         else Some (False, d, f2))"
  unfolding loadFile_def read_header
  by (simp add: seekSet_0 Let_def getFilename_def)


lemma setFile_eq:
  "hp file = Some f \<Longrightarrow>
   setFile d hp file =
     (case loadFile (d\<lparr>m_fileRef := Some file, m_fileSize := fileSize f\<rparr>) f of
        None \<Rightarrow> None
      | Some (ok, d2, f') \<Rightarrow>
          if ok then Some (True, d2, hp(file \<mapsto> f'))
          else Some (False, d2\<lparr>m_fileRef := None\<rparr>, hp(file \<mapsto> f')))"
  by (simp add: setFile_def Let_def)

lemma setFile_ATR:
  assumes "hp file = Some f" "ATR_check (header_of f)"
  shows "setFile d hp file =
     Some (True,
           d\<lparr>m_fileRef := Some file, m_fileSize := fileSize f, m_type := TYPE_ATR,
             m_headerSize := 16, m_readOnly := False,
             m_sectorSize := ucast (ATRHeader_secSize (header_of f)), m_sectorReadDelay := 0\<rparr>,
           hp(file \<mapsto> f\<lparr>curPosition := 0\<rparr>))"
  using assms by (simp add: setFile_eq loadFile_header Let_def)

lemma setFile_PRO:
  assumes "hp file = Some f" "\<not> ATR_check (header_of f)" "PRO_check (fileSize f) (header_of f)"
  shows "setFile d hp file =
     Some (True,
           set_phantom_mode (phantomSectorMode (header_of f))
             (d\<lparr>m_fileRef := Some file, m_fileSize := fileSize f, m_type := TYPE_PRO,
                m_readOnly := True, m_headerSize := 16, m_sectorSize := SECTOR_SIZE_SD,
                m_sectorReadDelay := unat (sectorReadDelay (header_of f)) * (1000 div 60)\<rparr>),
           hp(file \<mapsto> f\<lparr>curPosition := 0\<rparr>))"
  using assms by (simp add: setFile_eq loadFile_header Let_def)

lemma setFile_ATX:
  assumes "hp file = Some f" "\<not> ATR_check (header_of f)" "\<not> PRO_check (fileSize f) (header_of f)"
    "ATX_check (header_of f)"
  shows "setFile d hp file =
     (case build_index
             (d\<lparr>m_fileRef := Some file, m_fileSize := fileSize f, m_type := TYPE_ATX,
                m_readOnly := True, m_sectorReadDelay := 0, m_sectorSize := 128,
                m_phantomFlip := False\<rparr>) (f\<lparr>curPosition := 0\<rparr>) of
        None \<Rightarrow> None
      | Some (d', f3) \<Rightarrow> Some (True, d', hp(file \<mapsto> f3)))"
  using assms by (simp add: setFile_eq loadFile_header Let_def split: option.splits)

lemma setFile_XFD:
  assumes "hp file = Some f" "\<not> ATR_check (header_of f)" "\<not> PRO_check (fileSize f) (header_of f)"
    "\<not> ATX_check (header_of f)" "4 \<le> length (filename f)"
    "XFD_check (drop (length (filename f) - 4) (filename f)) (fileSize f)"
  shows "setFile d hp file =
     Some (True,
           d\<lparr>m_fileRef := Some file, m_fileSize := fileSize f, m_type := TYPE_XFD,
             m_readOnly := False, m_headerSize := 0, m_sectorSize := SECTOR_SIZE_SD,
             m_sectorReadDelay := 0\<rparr>,
           hp(file \<mapsto> f\<lparr>curPosition := 0\<rparr>))"
  using assms by (simp add: setFile_eq loadFile_header Let_def)

lemma setFile_none:
  assumes "hp file = Some f" "\<not> ATR_check (header_of f)" "\<not> PRO_check (fileSize f) (header_of f)"
    "\<not> ATX_check (header_of f)" "4 \<le> length (filename f)"
    "\<not> XFD_check (drop (length (filename f) - 4) (filename f)) (fileSize f)"
  shows "setFile d hp file =
     Some (False, d\<lparr>m_fileRef := None, m_fileSize := fileSize f\<rparr>,
           hp(file \<mapsto> f\<lparr>curPosition := 0\<rparr>))"
  using assms by (simp add: setFile_eq loadFile_header Let_def)

lemma setFile_short_name:
  assumes "hp file = Some f" "\<not> ATR_check (header_of f)" "\<not> PRO_check (fileSize f) (header_of f)"
    "\<not> ATX_check (header_of f)" "length (filename f) < 4"
  shows "setFile d hp file = None"
  using assms by (simp add: setFile_eq loadFile_header Let_def)

lemma XFD_check_short: "length s < 4 \<Longrightarrow> \<not> XFD_check s z"
  by (auto simp: XFD_check_def)

lemma build_index_fields:
  assumes "build_index d f = Some (d', f')"
  shows "m_type d' = m_type d \<and> m_readOnly d' = m_readOnly d \<and> m_headerSize d' = m_headerSize d
     \<and> m_sectorSize d' = m_sectorSize d \<and> m_fileSize d' = m_fileSize d \<and> m_fileRef d' = m_fileRef d
     \<and> m_phantomFlip d' = m_phantomFlip d"
proof -
  have "d' = d\<lparr>m_sectorHeaders := m_sectorHeaders d'\<rparr>"
    using assms by (rule build_index_frame)
  then obtain hs where "d' = d\<lparr>m_sectorHeaders := hs\<rparr>" ..
  then show ?thesis by simp
qed

lemma detected_ATR:
  "hp file = Some f \<Longrightarrow> ATR_check (header_of f) \<Longrightarrow> detected d hp file = Some TYPE_ATR"
  by (simp add: detected_def setFile_ATR)

lemma detected_PRO:
  "hp file = Some f \<Longrightarrow> \<not> ATR_check (header_of f) \<Longrightarrow> PRO_check (fileSize f) (header_of f)
     \<Longrightarrow> detected d hp file = Some TYPE_PRO"
  by (simp add: detected_def setFile_PRO set_phantom_mode_fields)

lemma detected_ATX:
  assumes "hp file = Some f" "\<not> ATR_check (header_of f)" "\<not> PRO_check (fileSize f) (header_of f)"
    "ATX_check (header_of f)"
  shows "detected d hp file = Some TYPE_ATX \<or> detected d hp file = None"
proof -
  let ?d1 = "d\<lparr>m_fileRef := Some file, m_fileSize := fileSize f, m_type := TYPE_ATX,
                m_readOnly := True, m_sectorReadDelay := 0, m_sectorSize := 128,
                m_phantomFlip := False\<rparr>"
  show ?thesis
  proof (cases "build_index ?d1 (f\<lparr>curPosition := 0\<rparr>)")
    case None
    then show ?thesis using assms by (simp add: detected_def setFile_ATX)
  next
    case (Some r)
    obtain d' f3 where r: "r = (d', f3)" by (cases r)
    have "m_type d' = m_type ?d1"
      using Some r build_index_fields [of ?d1 "f\<lparr>curPosition := 0\<rparr>" d' f3] by simp
    then have "m_type d' = TYPE_ATX" by simp
    then show ?thesis using assms Some r by (simp add: detected_def setFile_ATX)
  qed
qed

lemma detected_rest:
  assumes "hp file = Some f" "\<not> ATR_check (header_of f)" "\<not> PRO_check (fileSize f) (header_of f)"
    "\<not> ATX_check (header_of f)"
  shows "detected d hp file =
     (if XFD_check (drop (length (filename f) - 4) (filename f)) (fileSize f)
      then Some TYPE_XFD else None)"
proof (cases "length (filename f) < 4")
  case True
  then show ?thesis using assms by (simp add: detected_def setFile_short_name XFD_check_short)
next
  case False
  then show ?thesis using assms
    by (cases "XFD_check (drop (length (filename f) - 4) (filename f)) (fileSize f)")
       (simp_all add: detected_def setFile_XFD setFile_none)
qed

lemma detection_cases [case_names atr pro atx xfd none]:
  obtains (atr) "ATR_check (header_of f)"
    | (pro) "\<not> ATR_check (header_of f)" "PRO_check (fileSize f) (header_of f)"
    | (atx) "\<not> ATR_check (header_of f)" "\<not> PRO_check (fileSize f) (header_of f)"
        "ATX_check (header_of f)"
    | (xfd) "\<not> ATR_check (header_of f)" "\<not> PRO_check (fileSize f) (header_of f)"
        "\<not> ATX_check (header_of f)"
        "XFD_check (drop (length (filename f) - 4) (filename f)) (fileSize f)"
    | (none) "\<not> ATR_check (header_of f)" "\<not> PRO_check (fileSize f) (header_of f)"
        "\<not> ATX_check (header_of f)"
        "\<not> XFD_check (drop (length (filename f) - 4) (filename f)) (fileSize f)"
  by blast

section \<open>Detection of PRO images\<close>

lemma header_pro_file: "header_of pro_file = [0, 1, 0x50, 0x33, 2, 0] @ replicate 10 0"
  by (simp add: header_of_def pro_file_def)

lemma size_pro_file: "fileSize pro_file = 156"
  by (simp add: fileSize_def pro_file_def)

lemma header_atr_pro_file: "header_of atr_pro_file = [0x96, 0x02, 0x50] @ replicate 13 0"
  by (simp add: header_of_def atr_pro_file_def)

lemma size_atr_pro_file: "fileSize atr_pro_file = 5376296"
  by (simp add: fileSize_def atr_pro_file_def)

lemma header_long_pro_file: "header_of long_pro_file = [0x80, 0x00, 0x50] @ replicate 13 0"
  by (simp add: header_of_def long_pro_file_def)

lemma size_long_pro_file: "fileSize long_pro_file = 4587536"
  by (simp add: fileSize_def long_pro_file_def)

text \<open>
  The bound on the high byte is needed: the first two bytes of \<open>long_pro_file\<close> declare
  32768 sectors, its size is 16 + 32768 * 140 and its third byte is P, and the test of
  line 218 fails on it, since 128 * 256 is reduced to -32768 in \<open>int\<close>; the file is
  not detected as any format.
\<close>

lemma long_pro_file_not_PRO:
  "unat (header_of long_pro_file ! 0) * 256 + unat (header_of long_pro_file ! 1)
     = unat ((fileSize long_pro_file - 16) div (128 + of_nat sizeof_PROSectorHeader))
   \<and> header_of long_pro_file ! 2 = 0x50
   \<and> \<not> PRO_check (fileSize long_pro_file) (header_of long_pro_file)
   \<and> detected blank_image (store1 long_pro_file) 0 = None"
proof -
  have s: "store1 long_pro_file 0 = Some long_pro_file" by (simp add: store1_def)
  have c: "\<not> ATR_check (header_of long_pro_file)"
    "\<not> PRO_check (fileSize long_pro_file) (header_of long_pro_file)"
    "\<not> ATX_check (header_of long_pro_file)"
    by (simp_all add: ATR_check_iff PRO_check_iff ATX_check_def header_long_pro_file)
  have x: "\<not> XFD_check (drop (length (filename long_pro_file) - 4) (filename long_pro_file))
               (fileSize long_pro_file)"
    by (simp add: XFD_check_def long_pro_file_def)
  have "detected blank_image (store1 long_pro_file) 0 = None"
    using detected_rest [of "store1 long_pro_file" 0 long_pro_file blank_image] s c x by simp
  moreover have "unat (header_of long_pro_file ! 0) * 256 + unat (header_of long_pro_file ! 1)
     = unat ((fileSize long_pro_file - 16) div (128 + of_nat sizeof_PROSectorHeader))
   \<and> header_of long_pro_file ! 2 = 0x50"
    by (simp add: header_long_pro_file size_long_pro_file sizeof_PROSectorHeader_def)
  ultimately show ?thesis using c(2) by simp
qed

text \<open>
  C1 (as amended). A file is detected as PRO exactly when its header does not start with
  the ATR signature, the high byte of the declared sector count is below 128 (so that
  the count, which the code computes in its 16-bit \<open>int\<close>, is below 32768), the count
  (high byte times 256 plus low byte) equals (fileSize - 16) / (128 + sectorHeaderSize)
  in unsigned 32-bit arithmetic, and the third byte is the character P.
\<close>

theorem PRO_detected_iff:
  assumes "hp file = Some f"
  shows "detected d hp file = Some TYPE_PRO \<longleftrightarrow>
     \<not> (header_of f ! 0 = 0x96 \<and> header_of f ! 1 = 0x02)
     \<and> unat (header_of f ! 0) < 128
     \<and> unat (header_of f ! 0) * 256 + unat (header_of f ! 1)
         = unat ((fileSize f - 16) div (128 + of_nat sizeof_PROSectorHeader))
     \<and> header_of f ! 2 = 0x50"
proof -
  have p: "PRO_check (fileSize f) (header_of f) \<longleftrightarrow>
     unat (header_of f ! 0) < 128
     \<and> unat (header_of f ! 0) * 256 + unat (header_of f ! 1)
         = unat ((fileSize f - 16) div (128 + of_nat sizeof_PROSectorHeader))
     \<and> header_of f ! 2 = 0x50"
    by (simp add: PRO_check_iff sizeof_PROSectorHeader_def)
  consider (atr) "ATR_check (header_of f)"
    | (pro) "\<not> ATR_check (header_of f)" "PRO_check (fileSize f) (header_of f)"
    | (atx) "\<not> ATR_check (header_of f)" "\<not> PRO_check (fileSize f) (header_of f)"
        "ATX_check (header_of f)"
    | (rest) "\<not> ATR_check (header_of f)" "\<not> PRO_check (fileSize f) (header_of f)"
        "\<not> ATX_check (header_of f)"
    by blast
  then show ?thesis
  proof cases
    case atr
    then have "detected d hp file = Some TYPE_ATR" using assms by (simp add: detected_ATR)
    then show ?thesis using atr by (simp add: ATR_check_iff)
  next
    case pro
    then have "detected d hp file = Some TYPE_PRO" using assms by (simp add: detected_PRO)
    then show ?thesis using pro p by (simp add: ATR_check_iff)
  next
    case atx
    then have "detected d hp file = Some TYPE_ATX \<or> detected d hp file = None"
      using assms by (simp add: detected_ATX)
    then show ?thesis using atx p by auto
  next
    case rest
    then have "detected d hp file = Some TYPE_XFD \<or> detected d hp file = None"
      using assms by (simp add: detected_rest)
    then show ?thesis using rest p by auto
  qed
qed

theorem PRO_detected_iff_witness:
  "store1 pro_file 0 = Some pro_file \<and> detected blank_image (store1 pro_file) 0 = Some TYPE_PRO"
  using PRO_detected_iff [of "store1 pro_file" 0 pro_file blank_image]
  by (simp add: store1_def header_pro_file size_pro_file sizeof_PROSectorHeader_def)

text \<open>
  C1 as stated fails: \<open>atr_pro_file\<close> passes both parts of the cross-check (its first two
  bytes declare 38402 sectors, its size is 16 + 38402 * 140, its third byte is P), and
  it is detected as ATR, not as PRO.
\<close>

theorem PRO_detected_iff_counterexample:
  "\<not> (detected blank_image (store1 atr_pro_file) 0 = Some TYPE_PRO \<longleftrightarrow>
       unat (header_of atr_pro_file ! 0) * 256 + unat (header_of atr_pro_file ! 1)
         = unat ((fileSize atr_pro_file - 16) div (128 + of_nat sizeof_PROSectorHeader))
       \<and> header_of atr_pro_file ! 2 = 0x50)"
proof -
  have "ATR_check (header_of atr_pro_file)"
    by (simp add: ATR_check_iff header_atr_pro_file)
  then have "detected blank_image (store1 atr_pro_file) 0 = Some TYPE_ATR"
    by (simp add: detected_ATR store1_def)
  then show ?thesis
    by (simp add: header_atr_pro_file size_atr_pro_file sizeof_PROSectorHeader_def)
qed

section \<open>The order of detection\<close>

lemma ATX_check_iff:
  "ATX_check h \<longleftrightarrow> h ! 0 = 0x41 \<and> h ! 1 = 0x54 \<and> h ! 2 = 0x38 \<and> h ! 3 = 0x58"
  by (simp add: ATX_check_def)





section \<open>Detection of XFD images\<close>

lemma header_xfd_file: "header_of xfd_file = replicate 16 0"
  by (simp add: header_of_def xfd_file_def)

lemma header_mixed_xfd_file: "header_of mixed_xfd_file = replicate 16 0"
  by (simp add: header_of_def mixed_xfd_file_def)

lemma size_xfd_file: "fileSize xfd_file = 92160"
  by (simp add: fileSize_def xfd_file_def)

lemma size_mixed_xfd_file: "fileSize mixed_xfd_file = 92160"
  by (simp add: fileSize_def mixed_xfd_file_def)

lemma zero_header_checks:
  "\<not> ATR_check (replicate 16 0)" "\<not> PRO_check 92160 (replicate 16 0)" "\<not> ATX_check (replicate 16 0)"
  by (simp_all add: ATR_check_iff PRO_check_iff ATX_check_iff)

text \<open>
  C6 (as amended). A file is detected as XFD exactly when none of the ATR, PRO and ATX
  tests holds, the last four characters of its name are exactly \<open>.XFD\<close> or exactly
  \<open>.xfd\<close>, and its size is that of a single-sided single-density image of 40 tracks;
  the image then has header size 0 and sector size 128 and is writable.
\<close>

theorem XFD_detected_iff:
  assumes "hp file = Some f"
  shows "(detected d hp file = Some TYPE_XFD \<longleftrightarrow>
            \<not> ATR_check (header_of f) \<and> \<not> PRO_check (fileSize f) (header_of f)
            \<and> \<not> ATX_check (header_of f)
            \<and> (drop (length (filename f) - 4) (filename f) = ''.XFD''
                 \<or> drop (length (filename f) - 4) (filename f) = ''.xfd'')
            \<and> fileSize f = FORMAT_SS_SD_40)
     \<and> (\<forall>d' hp'. setFile d hp file = Some (True, d', hp') \<and> m_type d' = TYPE_XFD \<longrightarrow>
            m_headerSize d' = 0 \<and> m_sectorSize d' = 128 \<and> \<not> m_readOnly d')"
proof -
  let ?ext = "drop (length (filename f) - 4) (filename f)"
  have x: "XFD_check ?ext (fileSize f) \<longleftrightarrow>
      (?ext = ''.XFD'' \<or> ?ext = ''.xfd'') \<and> fileSize f = FORMAT_SS_SD_40"
    by (simp add: XFD_check_def)
  consider (atr) "ATR_check (header_of f)"
    | (pro) "\<not> ATR_check (header_of f)" "PRO_check (fileSize f) (header_of f)"
    | (atx) "\<not> ATR_check (header_of f)" "\<not> PRO_check (fileSize f) (header_of f)"
        "ATX_check (header_of f)"
    | (xfd) "\<not> ATR_check (header_of f)" "\<not> PRO_check (fileSize f) (header_of f)"
        "\<not> ATX_check (header_of f)" "XFD_check ?ext (fileSize f)"
    | (none) "\<not> ATR_check (header_of f)" "\<not> PRO_check (fileSize f) (header_of f)"
        "\<not> ATX_check (header_of f)" "\<not> XFD_check ?ext (fileSize f)"
    by blast
  then show ?thesis
  proof cases
    case atr
    have "detected d hp file = Some TYPE_ATR" using atr assms by (simp add: detected_ATR)
    then show ?thesis using atr assms by (auto simp: setFile_ATR)
  next
    case pro
    have "detected d hp file = Some TYPE_PRO" using pro assms by (simp add: detected_PRO)
    then show ?thesis using pro assms by (auto simp: setFile_PRO set_phantom_mode_fields)
  next
    case atx
    have a: "detected d hp file = Some TYPE_ATX \<or> detected d hp file = None"
      using atx assms by (simp add: detected_ATX)
    have "m_type d' \<noteq> TYPE_XFD" if "setFile d hp file = Some (True, d', hp')" for d' hp'
      using a that by (auto simp: detected_def)
    then show ?thesis using a atx by auto
  next
    case xfd
    have len: "4 \<le> length (filename f)"
      using xfd(4) XFD_check_short [of ?ext "fileSize f"] by (cases "length (filename f) < 4") auto
    have "detected d hp file = Some TYPE_XFD" using xfd assms by (simp add: detected_rest)
    then show ?thesis using xfd assms len x by (auto simp: setFile_XFD SECTOR_SIZE_SD_def)
  next
    case none
    have a: "detected d hp file = None" using none assms by (simp add: detected_rest)
    have "False" if "setFile d hp file = Some (True, d', hp')" for d' hp'
      using a that by (auto simp: detected_def)
    then show ?thesis using a none x by auto
  qed
qed

theorem XFD_detected_iff_witness:
  "store1 xfd_file 0 = Some xfd_file
   \<and> detected blank_image (store1 xfd_file) 0 = Some TYPE_XFD
   \<and> (\<exists>d' hp'. setFile blank_image (store1 xfd_file) 0 = Some (True, d', hp')
         \<and> m_type d' = TYPE_XFD \<and> m_headerSize d' = 0 \<and> m_sectorSize d' = 128
         \<and> \<not> m_readOnly d')"
proof -
  have s: "store1 xfd_file 0 = Some xfd_file" by (simp add: store1_def)
  have e: "drop (length (filename xfd_file) - 4) (filename xfd_file) = ''.XFD''"
    by (simp add: xfd_file_def)
  note t = XFD_detected_iff [of "store1 xfd_file" 0 xfd_file blank_image]
  have k: "detected blank_image (store1 xfd_file) 0 = Some TYPE_XFD"
    using t s e by (simp add: header_xfd_file size_xfd_file zero_header_checks FORMAT_SS_SD_40_def)
  then obtain d' hp' where r: "setFile blank_image (store1 xfd_file) 0 = Some (True, d', hp')"
    and m: "m_type d' = TYPE_XFD"
    by (auto simp: detected_def split: option.splits if_splits)
  then have "m_headerSize d' = 0 \<and> m_sectorSize d' = 128 \<and> \<not> m_readOnly d'"
    using t s by blast
  then show ?thesis using s k r m by blast
qed

text \<open>
  C6 as stated fails: \<open>mixed_xfd_file\<close> has the extension \<open>.Xfd\<close> and the size of a
  single-density image of 40 tracks, and attach rejects it.
\<close>

theorem XFD_mixed_case_counterexample:
  "drop (length (filename mixed_xfd_file) - 4) (filename mixed_xfd_file) = ''.Xfd''
   \<and> fileSize mixed_xfd_file = FORMAT_SS_SD_40
   \<and> detected blank_image (store1 mixed_xfd_file) 0 \<noteq> Some TYPE_XFD
   \<and> map_option fst (setFile blank_image (store1 mixed_xfd_file) 0) = Some False"
proof -
  have s: "store1 mixed_xfd_file 0 = Some mixed_xfd_file" by (simp add: store1_def)
  have e: "drop (length (filename mixed_xfd_file) - 4) (filename mixed_xfd_file) = ''.Xfd''"
    and l: "4 \<le> length (filename mixed_xfd_file)"
    by (simp_all add: mixed_xfd_file_def)
  have x: "\<not> XFD_check (drop (length (filename mixed_xfd_file) - 4) (filename mixed_xfd_file))
                (fileSize mixed_xfd_file)"
    unfolding e by (simp add: XFD_check_def)
  have c: "\<not> ATR_check (header_of mixed_xfd_file)"
    "\<not> PRO_check (fileSize mixed_xfd_file) (header_of mixed_xfd_file)"
    "\<not> ATX_check (header_of mixed_xfd_file)"
    by (simp_all add: header_mixed_xfd_file size_mixed_xfd_file zero_header_checks)
  have "setFile blank_image (store1 mixed_xfd_file) 0 =
     Some (False, blank_image\<lparr>m_fileRef := None, m_fileSize := fileSize mixed_xfd_file\<rparr>,
           (store1 mixed_xfd_file)(0 \<mapsto> mixed_xfd_file\<lparr>curPosition := 0\<rparr>))"
    using s c l x by (rule setFile_none)
  then show ?thesis
    using e by (simp add: detected_def size_mixed_xfd_file FORMAT_SS_SD_40_def)
qed

section \<open>Failure of detection\<close>

lemma header_text_file: "header_of text_file = [0x48, 0x49] @ replicate 14 255"
  by (simp add: header_of_def text_file_def)

lemma size_text_file: "fileSize text_file = 2"
  by (simp add: fileSize_def text_file_def)

lemma text_file_checks:
  "\<not> ATR_check (header_of text_file)"
  "\<not> PRO_check (fileSize text_file) (header_of text_file)"
  "\<not> ATX_check (header_of text_file)"
  "4 \<le> length (filename text_file)"
  "\<not> XFD_check (drop (length (filename text_file) - 4) (filename text_file)) (fileSize text_file)"
proof -
  show "\<not> ATR_check (header_of text_file)"
    by (simp add: ATR_check_iff header_text_file)
  show "\<not> PRO_check (fileSize text_file) (header_of text_file)"
    by (simp add: PRO_check_iff header_text_file)
  show "\<not> ATX_check (header_of text_file)"
    by (simp add: ATX_check_iff header_text_file)
  show "4 \<le> length (filename text_file)"
    by (simp add: text_file_def)
  show "\<not> XFD_check (drop (length (filename text_file) - 4) (filename text_file))
              (fileSize text_file)"
    by (simp add: XFD_check_def size_text_file FORMAT_SS_SD_40_def)
qed




text \<open>
  C8 (as amended). When no test of the detection holds for a file (with a name of at
  least four characters), attach returns failure, the image has no file attached, and
  every member other than the file reference and the file size keeps its value; the
  file size is that of the file rejected.
\<close>

theorem setFile_detection_failure:
  assumes "hp file = Some f"
    and "\<not> ATR_check (header_of f)" and "\<not> PRO_check (fileSize f) (header_of f)"
    and "\<not> ATX_check (header_of f)"
    and "4 \<le> length (filename f)"
    and "\<not> XFD_check (drop (length (filename f) - 4) (filename f)) (fileSize f)"
  shows "\<exists>hp'. setFile d hp file
            = Some (False, d\<lparr>m_fileRef := None, m_fileSize := fileSize f\<rparr>, hp')
          \<and> \<not> hasImage (d\<lparr>m_fileRef := None, m_fileSize := fileSize f\<rparr>)"
  using setFile_none [of hp "file" f d] assms by (simp add: hasImage_def)

theorem setFile_detection_failure_witness:
  "store2 text_file ed_atr_file 0 = Some text_file
   \<and> \<not> ATR_check (header_of text_file)
   \<and> \<not> PRO_check (fileSize text_file) (header_of text_file)
   \<and> \<not> ATX_check (header_of text_file)
   \<and> 4 \<le> length (filename text_file)
   \<and> \<not> XFD_check (drop (length (filename text_file) - 4) (filename text_file)) (fileSize text_file)
   \<and> (\<exists>hp'. setFile ed_image (store2 text_file ed_atr_file) 0
            = Some (False, ed_image\<lparr>m_fileRef := None, m_fileSize := 2\<rparr>, hp'))"
proof -
  have s: "store2 text_file ed_atr_file 0 = Some text_file" by (simp add: store2_def)
  show ?thesis
    using setFile_detection_failure
      [of "store2 text_file ed_atr_file" 0 text_file ed_image] s text_file_checks
    by (simp add: size_text_file)
qed

text \<open>
  C8 as stated fails: attaching \<open>text_file\<close> to the image that holds the
  enhanced-density ATR file fails, and afterwards the recorded file size is 2 instead of
  133136 and \<open>isEnhancedDensity\<close> answers false instead of true.
\<close>

theorem setFile_failure_counterexample:
  "map_option fst (setFile ed_image (store2 text_file ed_atr_file) 0) = Some False
   \<and> map_option (m_fileSize \<circ> fst \<circ> snd) (setFile ed_image (store2 text_file ed_atr_file) 0)
       \<noteq> Some (m_fileSize ed_image)
   \<and> isEnhancedDensity ed_image
   \<and> map_option (isEnhancedDensity \<circ> fst \<circ> snd)
        (setFile ed_image (store2 text_file ed_atr_file) 0) = Some False"
proof -
  have s: "store2 text_file ed_atr_file 0 = Some text_file" by (simp add: store2_def)
  have r: "setFile ed_image (store2 text_file ed_atr_file) 0 =
     Some (False, ed_image\<lparr>m_fileRef := None, m_fileSize := fileSize text_file\<rparr>,
           (store2 text_file ed_atr_file)(0 \<mapsto> text_file\<lparr>curPosition := 0\<rparr>))"
    using setFile_none [of "store2 text_file ed_atr_file" 0 text_file ed_image] s text_file_checks
    by simp
  show ?thesis
    unfolding r
    by (simp add: size_text_file ed_image_def blank_image_def isEnhancedDensity_def
          FORMAT_SS_ED_35_def FORMAT_SS_ED_40_def)
qed

section \<open>Reading a sector\<close>

lemma find_slot_no_match:
  "\<forall>j<720. ucast (sectorNumber (hs j)) \<noteq> sector - 1 \<Longrightarrow> find_slot hs sector flip i ix = ix"
proof (induction hs sector flip i ix rule: find_slot.induct)
  case (1 hs sector flip i ix)
  show ?case
  proof (cases "i < 720")
    case True
    with 1 show ?thesis by (subst find_slot.simps) simp
  next
    case False
    then show ?thesis by (subst find_slot.simps) simp
  qed
qed




text \<open>\<open>pro_image\<close> is the image after \<open>pro_file\<close> has been attached to a new image.\<close>

lemma pro_file_checks:
  "\<not> ATR_check (header_of pro_file)" "PRO_check (fileSize pro_file) (header_of pro_file)"
  by (simp_all add: ATR_check_iff PRO_check_iff header_pro_file size_pro_file)

lemma pro_image_attached:
  "setFile blank_image (store1 pro_file) 0 = Some (True, pro_image, store1 pro_file)"
proof -
  have s: "store1 pro_file 0 = Some pro_file" by (simp add: store1_def)
  have f: "pro_file\<lparr>curPosition := 0\<rparr> = pro_file" by (simp add: pro_file_def)
  have h: "(store1 pro_file)(0 \<mapsto> pro_file) = store1 pro_file"
    by (auto simp: store1_def)
  show ?thesis
    using setFile_PRO [of "store1 pro_file" 0 pro_file blank_image] s pro_file_checks
    by (simp add: f h size_pro_file header_pro_file set_phantom_mode_def phantomSectorMode_def
          sectorReadDelay_def PSM_SIMPLE_def PSM_MINDSCAPE_SPECIAL_def PSM_STICKY_def
          PSM_SHIMMERING_def PSM_REVERSE_SHIMMER_def PSM_GLOBAL_FLIP_FLOP_def SECTOR_SIZE_SD_def
          pro_image_def)
qed


section \<open>The ATX index of the sample file\<close>

lemma read_in_range:
  "curPosition f < length (contents f) \<Longrightarrow>
   read f = (uint (contents f ! curPosition f), f\<lparr>curPosition := curPosition f + 1\<rparr>)"
  by (simp add: read_def)

lemma reads_in_range:
  "curPosition f + n \<le> length (contents f) \<Longrightarrow>
   reads n f = (map uint (take n (drop (curPosition f) (contents f))), f\<lparr>curPosition := curPosition f + n\<rparr>)"
  by (simp add: reads_eq)

lemma read_ulong_in_range:
  assumes "curPosition f + 4 \<le> length (contents f)"
  shows "read_ulong f =
     (word_of_int (uint (contents f ! curPosition f))
        + word_of_int (mul_int (uint (contents f ! (curPosition f + 1))) 256)
        + word_of_int (mul_int (uint (contents f ! (curPosition f + 2))) 512)
        + word_of_int (mul_int (uint (contents f ! (curPosition f + 3))) 768),
      f\<lparr>curPosition := curPosition f + 4\<rparr>)"
proof -
  have s: "curPosition f + 1 = Suc (curPosition f)"
    "curPosition f + 2 = Suc (Suc (curPosition f))"
    "curPosition f + 3 = Suc (Suc (Suc (curPosition f)))"
    "curPosition f + 4 = Suc (Suc (Suc (Suc (curPosition f))))"
    by simp_all
  show ?thesis
    unfolding s using assms by (simp add: read_ulong_def read_def Let_def)
qed

lemma seekSet_in_range:
  "unat pos \<le> length (contents f) \<Longrightarrow> seekSet pos f = f\<lparr>curPosition := unat pos\<rparr>"
  by (simp add: seekSet_def)

text \<open>A track record of zero bytes: no sector entry, and the next record at the same place.\<close>

lemma track_loop_zeros:
  assumes "curPosition f = unat fileIdx" and "unat fileIdx + 24 \<le> length (contents f)"
    and "\<forall>j. unat fileIdx \<le> j \<and> j < unat fileIdx + 24 \<longrightarrow> contents f ! j = 0"
  shows "track_loop n fileIdx hs f = Some (hs, f)"
proof (induction n)
  case 0
  show ?case by simp
next
  case (Suc n)
  have z: "contents f ! j = 0" if "unat fileIdx \<le> j" "j < unat fileIdx + 24" for j
    using assms(3) that by blast
  have f: "f\<lparr>curPosition := unat fileIdx\<rparr> = f" using assms(1) by simp
  show ?case
    using assms(1,2) Suc.IH
    by (simp add: read_in_range reads_in_range read_ulong_in_range seekSet_in_range z f Let_def
          mul_int_def add_int_def cint_def)
qed


lemma clear_slots_eq:
  "clear_slots n hs = (\<lambda>i. if i < n then (hs i)\<lparr>sectorNumber := 60000\<rparr> else hs i)"
proof (induction n)
  case 0
  show ?case by simp
next
  case (Suc n)
  show ?case by (auto simp: Suc.IH Let_def fun_eq_iff less_Suc_eq)
qed

lemma length_atx_prefix: "length atx_prefix = 96"
  by (simp add: atx_prefix_def)

lemma header_atx_file:
  "header_of atx_file = [0x41, 0x54, 0x38, 0x58, 0, 0, 0, 0, 0, 0, 0, 0, 0, 0, 0, 0]"
  by (simp add: header_of_def atx_file_def atx_prefix_def)

lemma size_atx_file: "fileSize atx_file = 65712"
  by (simp add: fileSize_def atx_file_def length_atx_prefix)

lemma atx_file_tracks:
  "track_loop 40 48 hs (atx_file\<lparr>curPosition := 48\<rparr>) =
     Some (hs(0 := \<lparr>sectorNumber = 0, fileIndex = 560, sstatus = 0\<rparr>),
           atx_file\<lparr>curPosition := 96\<rparr>)"
proof -
  let ?hs = "hs(0 := \<lparr>sectorNumber = 0, fileIndex = 560, sstatus = 0\<rparr>)"
  have "track_loop 40 48 hs (atx_file\<lparr>curPosition := 48\<rparr>)
          = track_loop (Suc 39) 48 hs (atx_file\<lparr>curPosition := 48\<rparr>)"
    by simp
  also have "\<dots> = track_loop 39 96 ?hs (atx_file\<lparr>curPosition := 96\<rparr>)"
    by (subst track_loop.simps(2))
       (simp add: atx_file_def atx_prefix_def read_in_range reads_in_range read_ulong_in_range
          seekSet_in_range nth_append Let_def mul_int_def add_int_def cint_def)
  also have "\<dots> = Some (?hs, atx_file\<lparr>curPosition := 96\<rparr>)"
    by (rule track_loop_zeros) (auto simp: atx_file_def nth_append length_atx_prefix)
  finally show ?thesis .
qed

lemma atx_file_index:
  "build_index d (atx_file\<lparr>curPosition := 0\<rparr>) =
     Some (d\<lparr>m_sectorHeaders :=
               (clear_slots 720 (m_sectorHeaders d))
                 (0 := \<lparr>sectorNumber = 0, fileIndex = 560, sstatus = 0\<rparr>)\<rparr>,
           atx_file\<lparr>curPosition := 96\<rparr>)"
proof -
  have a: "seekSet 28 (atx_file\<lparr>curPosition := 0\<rparr>) = atx_file\<lparr>curPosition := 28\<rparr>"
    by (simp add: seekSet_in_range atx_file_def length_atx_prefix)
  have c: "seekSet 48 (atx_file\<lparr>curPosition := 32\<rparr>) = atx_file\<lparr>curPosition := 48\<rparr>"
    by (simp add: seekSet_in_range atx_file_def length_atx_prefix)
  have r: "read (atx_file\<lparr>curPosition := 28\<rparr>) = (48, atx_file\<lparr>curPosition := 29\<rparr>)"
    "read (atx_file\<lparr>curPosition := 29\<rparr>) = (0, atx_file\<lparr>curPosition := 30\<rparr>)"
    "read (atx_file\<lparr>curPosition := 30\<rparr>) = (0, atx_file\<lparr>curPosition := 31\<rparr>)"
    "read (atx_file\<lparr>curPosition := 31\<rparr>) = (0, atx_file\<lparr>curPosition := 32\<rparr>)"
    by (simp_all add: read_in_range atx_file_def atx_prefix_def)
  show ?thesis
    unfolding build_index_def a
    by (simp add: r c atx_file_tracks Let_def mul_int_def add_int_def cint_def)
qed

lemma atx_file_checks:
  "\<not> ATR_check (header_of atx_file)"
  "\<not> PRO_check (fileSize atx_file) (header_of atx_file)"
  "ATX_check (header_of atx_file)"
  by (simp_all add: ATR_check_iff PRO_check_iff ATX_check_iff header_atx_file)

text \<open>\<open>atx_image\<close> is the image after \<open>atx_file\<close> has been attached to a new image.\<close>

lemma atx_image_attached:
  "setFile blank_image (store1 atx_file) 0 =
     Some (True, atx_image, store1 (atx_file\<lparr>curPosition := 96\<rparr>))"
proof -
  have s: "store1 atx_file 0 = Some atx_file" by (simp add: store1_def)
  have h: "(store1 atx_file)(0 \<mapsto> atx_file\<lparr>curPosition := 96\<rparr>)
             = store1 (atx_file\<lparr>curPosition := 96\<rparr>)"
    by (auto simp: store1_def)
  have i: "(clear_slots 720 (m_sectorHeaders blank_image))
             (0 := \<lparr>sectorNumber = 0, fileIndex = 560, sstatus = 0\<rparr>) = m_sectorHeaders atx_image"
    by (auto simp: clear_slots_eq blank_image_def atx_image_def fun_eq_iff)
  show ?thesis
    using setFile_ATX [of "store1 atx_file" 0 atx_file blank_image] s atx_file_checks
    by (simp add: atx_file_index h i size_atx_file) (simp add: atx_image_def blank_image_def)
qed

section \<open>The index of an ATX image\<close>

text \<open>
  C4. The code does not decode the four bytes as a little-endian integer. The sector
  entry of \<open>atx_file\<close> gives the start of the data by the bytes \<open>00 00 01 00\<close>, which are
  65536 in little-endian order; the track record starts at 48, so the data would start
  at 65584. After the attach the index has 560 for it, which is 48 + 512.
\<close>

theorem ATX_offset_decoding:
  "setFile blank_image (store1 atx_file) 0
     = Some (True, atx_image, store1 (atx_file\<lparr>curPosition := 96\<rparr>))
   \<and> fileIndex (m_sectorHeaders atx_image 0) = 560
   \<and> 48 + little_endian_32 (atx_prefix ! 92) (atx_prefix ! 93) (atx_prefix ! 94) (atx_prefix ! 95)
       = 65584"
  by (simp add: atx_image_attached)
     (simp add: atx_image_def atx_prefix_def little_endian_32_def)

lemma setFile_ATX_fields:
  assumes "hp file = Some f" and "setFile d hp file = Some (True, d', hp')"
    and "m_type d' = TYPE_ATX"
  shows "\<exists>hs. d' = d\<lparr>m_fileRef := Some file, m_fileSize := fileSize f, m_type := TYPE_ATX,
                m_readOnly := True, m_sectorReadDelay := 0, m_sectorSize := 128,
                m_phantomFlip := False, m_sectorHeaders := hs\<rparr>"
proof -
  let ?ext = "drop (length (filename f) - 4) (filename f)"
  let ?d1 = "d\<lparr>m_fileRef := Some file, m_fileSize := fileSize f, m_type := TYPE_ATX,
                m_readOnly := True, m_sectorReadDelay := 0, m_sectorSize := 128,
                m_phantomFlip := False\<rparr>"
  from detection_cases [of f]
  show ?thesis
  proof cases
    case atr
    then show ?thesis using assms by (auto simp: setFile_ATR)
  next
    case pro
    then show ?thesis using assms by (auto simp: setFile_PRO set_phantom_mode_fields)
  next
    case atx
    from assms atx obtain f3 where b: "build_index ?d1 (f\<lparr>curPosition := 0\<rparr>) = Some (d', f3)"
      by (auto simp: setFile_ATX split: option.splits)
    have "d' = ?d1\<lparr>m_sectorHeaders := m_sectorHeaders d'\<rparr>"
      using b by (rule build_index_frame)
    then show ?thesis by blast
  next
    case xfd
    have len: "4 \<le> length (filename f)"
      using xfd(4) XFD_check_short [of ?ext "fileSize f"] by (cases "length (filename f) < 4") auto
    show ?thesis using assms xfd len by (auto simp: setFile_XFD)
  next
    case none
    have len: "4 \<le> length (filename f)"
      using assms none setFile_short_name [of hp "file" f d] by (cases "length (filename f) < 4") auto
    show ?thesis using assms none len by (auto simp: setFile_none)
  qed
qed

text \<open>
  C10. A successful attach of an ATX image sets the kind, the read-only flag, the read
  delay, the sector size and \<open>m_phantomFlip\<close>, and leaves \<open>m_headerSize\<close> at the value it
  had before the call; \<open>isEnhancedDensity\<close> and \<open>isDoubleDensity\<close> then compare the size
  of the file with the reference sizes plus that earlier value.
\<close>

theorem ATX_attach_headerSize:
  assumes "hp file = Some f" and "setFile d hp file = Some (True, d', hp')"
    and "m_type d' = TYPE_ATX"
  shows "m_headerSize d' = m_headerSize d
     \<and> m_readOnly d' \<and> m_sectorReadDelay d' = 0 \<and> m_sectorSize d' = 128 \<and> \<not> m_phantomFlip d'
     \<and> isEnhancedDensity d'
         = (fileSize f = FORMAT_SS_ED_35 + m_headerSize d \<or> fileSize f = FORMAT_SS_ED_40 + m_headerSize d)
     \<and> isDoubleDensity d'
         = (fileSize f = FORMAT_SS_DD_35 + m_headerSize d \<or> fileSize f = FORMAT_SS_DD_40 + m_headerSize d)"
proof -
  obtain hs where "d' = d\<lparr>m_fileRef := Some file, m_fileSize := fileSize f, m_type := TYPE_ATX,
                m_readOnly := True, m_sectorReadDelay := 0, m_sectorSize := 128,
                m_phantomFlip := False, m_sectorHeaders := hs\<rparr>"
    using setFile_ATX_fields [of hp "file" f d d' hp'] assms by blast
  then show ?thesis by (simp add: isEnhancedDensity_def isDoubleDensity_def)
qed

theorem ATX_attach_headerSize_witness:
  "store1 atx_file 0 = Some atx_file
   \<and> (\<exists>d' hp'. setFile ed_image (store1 atx_file) 0 = Some (True, d', hp')
        \<and> m_type d' = TYPE_ATX \<and> m_headerSize ed_image = 16 \<and> m_headerSize d' = 16)"
proof -
  have s: "store1 atx_file 0 = Some atx_file" by (simp add: store1_def)
  define d' where "d' = ed_image\<lparr>m_fileRef := Some 0, m_fileSize := fileSize atx_file,
      m_type := TYPE_ATX, m_readOnly := True, m_sectorReadDelay := 0, m_sectorSize := 128,
      m_phantomFlip := False,
      m_sectorHeaders := (clear_slots 720 (m_sectorHeaders ed_image))
                 (0 := \<lparr>sectorNumber = 0, fileIndex = 560, sstatus = 0\<rparr>)\<rparr>"
  define hp' where "hp' = (store1 atx_file)(0 \<mapsto> atx_file\<lparr>curPosition := 96\<rparr>)"
  have r: "setFile ed_image (store1 atx_file) 0 = Some (True, d', hp')"
    using setFile_ATX [of "store1 atx_file" 0 atx_file ed_image] s atx_file_checks
    by (simp add: atx_file_index d'_def hp'_def)
  have t: "m_type d' = TYPE_ATX" by (simp add: d'_def)
  have h: "m_headerSize ed_image = 16" by (simp add: ed_image_def)
  have "m_headerSize d' = m_headerSize ed_image"
    using ATX_attach_headerSize [of "store1 atx_file" 0 atx_file ed_image d' hp'] s r t by simp
  then show ?thesis using s r t h by auto
qed

section \<open>Missing sectors of an ATX image\<close>

lemma getSectorData_ATX_no_match:
  assumes "m_fileRef d = Some r" and "hp r = Some f" and "m_type d = TYPE_ATX"
    and "\<forall>i<720. ucast (sectorNumber (m_sectorHeaders d i)) \<noteq> sector - 1"
  shows "\<exists>d' hp'. getSectorData d hp sector = Some (d', hp')
     \<and> error (m_sectorBuffer d') \<and> validStatusFrame (m_sectorBuffer d')
     \<and> hardwareStatus (statusFrame (m_sectorBuffer d')) = 0xF7
     \<and> commandStatus (statusFrame (m_sectorBuffer d')) = 0x10
     \<and> timeout_lsb (statusFrame (m_sectorBuffer d')) = 0xE0"
proof -
  have "find_slot (m_sectorHeaders d) sector (m_phantomFlip d) 0 (- 1) = - 1"
    using assms(4) by (rule find_slot_no_match)
  then show ?thesis
    using assms(1-3)
    by (simp add: getSectorData_def getSectorData_ATX_def Let_def split: prod.splits)
qed

text \<open>
  C5 (as amended). On an ATX image with a file attached, a read of a sector other than
  60001 that matches no populated slot of the index reports an error, and the status
  frame has hardware status \<open>0xF7\<close>, command status \<open>0x10\<close> and timeout \<open>0xE0\<close>.
\<close>

theorem getSectorData_ATX_missing:
  assumes "m_fileRef d = Some r" and "hp r = Some f" and "m_type d = TYPE_ATX"
    and "no_populated_slot_matches d sector" and "sector \<noteq> 60001"
  shows "\<exists>d' hp'. getSectorData d hp sector = Some (d', hp')
     \<and> error (m_sectorBuffer d') \<and> validStatusFrame (m_sectorBuffer d')
     \<and> hardwareStatus (statusFrame (m_sectorBuffer d')) = 0xF7
     \<and> commandStatus (statusFrame (m_sectorBuffer d')) = 0x10
     \<and> timeout_lsb (statusFrame (m_sectorBuffer d')) = 0xE0"
proof -
  have s: "sector - 1 \<noteq> 60000"
  proof
    assume "sector - 1 = 60000"
    then have "sector - 1 + 1 = 60000 + 1" by (rule arg_cong)
    then show False using assms(5) by simp
  qed
  have "ucast (sectorNumber (m_sectorHeaders d i)) \<noteq> sector - 1" if "i < 720" for i
  proof (cases "sectorNumber (m_sectorHeaders d i) = 60000")
    case True
    then show ?thesis using s by simp
  next
    case False
    then show ?thesis
      using assms(4) that by (simp add: no_populated_slot_matches_def slot_matches_def)
  qed
  then show ?thesis
    using assms(1-3) getSectorData_ATX_no_match [of d r hp f sector] by blast
qed

theorem getSectorData_ATX_missing_witness:
  "m_fileRef atx_image = Some 0 \<and> store1 atx_file 0 = Some atx_file
   \<and> m_type atx_image = TYPE_ATX \<and> (5 :: ulong) \<noteq> 60001
   \<and> (\<exists>d' hp'. getSectorData atx_image (store1 atx_file) 5 = Some (d', hp')
         \<and> error (m_sectorBuffer d')
         \<and> hardwareStatus (statusFrame (m_sectorBuffer d')) = 0xF7)"
proof -
  have a: "m_fileRef atx_image = Some 0" "m_type atx_image = TYPE_ATX"
    by (simp_all add: atx_image_def)
  have s: "store1 atx_file 0 = Some atx_file" by (simp add: store1_def)
  have n: "no_populated_slot_matches atx_image 5"
    by (simp add: no_populated_slot_matches_def slot_matches_def atx_image_def)
  show ?thesis
    using getSectorData_ATX_missing [of atx_image 0 "store1 atx_file" atx_file 5] a s n
    by auto
qed

text \<open>
  C5 as stated fails: in \<open>atx_image\<close> the only slot filled from the file has the number
  0, so a request for sector 60001 matches no such slot; it matches slot 1, which still
  has the number 60000, and the result has no error and the hardware status \<open>0xFF\<close>.
\<close>

lemma find_slot_atx_image: "find_slot (m_sectorHeaders atx_image) 60001 False 0 (- 1) = 1"
  by (simp add: find_slot.simps atx_image_def)

theorem getSectorData_ATX_sentinel_counterexample:
  "no_populated_slot_matches atx_image 60001
   \<and> map_option (error \<circ> m_sectorBuffer \<circ> fst)
        (getSectorData atx_image (store1 atx_file) 60001) = Some False
   \<and> map_option (hardwareStatus \<circ> statusFrame \<circ> m_sectorBuffer \<circ> fst)
        (getSectorData atx_image (store1 atx_file) 60001) = Some 0xFF"
proof -
  have n: "no_populated_slot_matches atx_image 60001"
    by (simp add: no_populated_slot_matches_def slot_matches_def atx_image_def)
  have f: "m_phantomFlip atx_image = False" by (simp add: atx_image_def)
  have g: "m_fileRef atx_image = Some 0" "m_type atx_image = TYPE_ATX"
    "store1 atx_file 0 = Some atx_file"
    "sstatus (m_sectorHeaders atx_image (Suc 0)) = 0"
    "error (m_sectorBuffer atx_image) = False"
    by (simp_all add: atx_image_def store1_def blank_image_def)
  show ?thesis
    using n
    by (simp add: getSectorData_def getSectorData_ATX_def Let_def f g find_slot_atx_image
          split: prod.splits)
qed

section \<open>Writing to a read-only image\<close>

lemma setFile_readOnly:
  assumes "hp file = Some f" and "setFile d hp file = Some (True, d', hp')"
    and "m_type d' = TYPE_PRO \<or> m_type d' = TYPE_ATX"
  shows "m_readOnly d'"
proof -
  let ?ext = "drop (length (filename f) - 4) (filename f)"
  from detection_cases [of f]
  show ?thesis
  proof cases
    case atr
    then show ?thesis using assms by (auto simp: setFile_ATR)
  next
    case pro
    then show ?thesis using assms by (auto simp: setFile_PRO set_phantom_mode_fields)
  next
    case atx
    let ?d1 = "d\<lparr>m_fileRef := Some file, m_fileSize := fileSize f, m_type := TYPE_ATX,
                m_readOnly := True, m_sectorReadDelay := 0, m_sectorSize := 128,
                m_phantomFlip := False\<rparr>"
    from assms atx obtain f3 where b: "build_index ?d1 (f\<lparr>curPosition := 0\<rparr>) = Some (d', f3)"
      by (auto simp: setFile_ATX split: option.splits)
    show ?thesis using build_index_fields [OF b] by simp
  next
    case xfd
    have len: "4 \<le> length (filename f)"
      using xfd(4) XFD_check_short [of ?ext "fileSize f"] by (cases "length (filename f) < 4") auto
    show ?thesis using assms xfd len by (auto simp: setFile_XFD)
  next
    case none
    have len: "4 \<le> length (filename f)"
      using assms none setFile_short_name [of hp "file" f d] by (cases "length (filename f) < 4") auto
    show ?thesis using assms none len by (auto simp: setFile_none)
  qed
qed

text \<open>
  C7. On a read-only image \<open>writeSectorData\<close> returns 0 and leaves the store of files
  as it was; and an image attached as PRO or ATX is read-only, so the same holds for it.
\<close>

theorem writeSectorData_readOnly:
  "(m_readOnly d \<longrightarrow> writeSectorData d hp sector dat len = Some (0, hp))
   \<and> (hp0 file = Some f \<and> setFile d0 hp0 file = Some (True, d, hp1)
        \<and> (m_type d = TYPE_PRO \<or> m_type d = TYPE_ATX)
      \<longrightarrow> m_readOnly d \<and> writeSectorData d hp sector dat len = Some (0, hp))"
proof -
  have w: "writeSectorData d hp sector dat len = Some (0, hp)" if "m_readOnly d"
    using that by (simp add: writeSectorData_def)
  show ?thesis
    using w setFile_readOnly [of hp0 "file" f d0 d hp1] by blast
qed

theorem writeSectorData_readOnly_witness:
  "m_readOnly pro_image
   \<and> store1 pro_file 0 = Some pro_file
   \<and> setFile blank_image (store1 pro_file) 0 = Some (True, pro_image, store1 pro_file)
   \<and> m_type pro_image = TYPE_PRO
   \<and> writeSectorData pro_image (store1 pro_file) 1 [1, 2, 3] 3 = Some (0, store1 pro_file)"
proof -
  have a: "m_readOnly pro_image" "m_type pro_image = TYPE_PRO"
    by (simp_all add: pro_image_def)
  have s: "store1 pro_file 0 = Some pro_file" by (simp add: store1_def)
  show ?thesis
    using writeSectorData_readOnly
      [of pro_image "store1 pro_file" 1 "[1, 2, 3]" 3 "store1 pro_file" 0 pro_file blank_image
          "store1 pro_file"]
      a s pro_image_attached
    by simp
qed

section \<open>Formatting\<close>





section \<open>Invariants of the image\<close>







section \<open>Formatting, then reading sector 1\<close>






end
